theory Spec2Isabelle
  imports Main "HOL-Library.Word" "HOL-Library.AList"
begin

section \<open>ZenithBill: encryption and key lifecycle\<close>

text \<open>
  A model of the encryption utilities of ZenithBill: the \<^verbatim>\<open>CryptoEngine\<close>
  (\<^verbatim>\<open>encryptText\<close>, \<^verbatim>\<open>decryptText\<close>, key and hash generation), the \<^verbatim>\<open>KeyManager\<close>
  (\<^verbatim>\<open>initialize\<close>, key generation, \<^verbatim>\<open>getKey\<close>, \<^verbatim>\<open>getPublicKey\<close>, \<^verbatim>\<open>listKeys\<close>,
  \<^verbatim>\<open>deleteKey\<close>, \<^verbatim>\<open>rotateKey\<close>, \<^verbatim>\<open>getExpiringKeys\<close>, export and import), the
  \<^verbatim>\<open>SecureStorage\<close> (\<^verbatim>\<open>store\<close>, \<^verbatim>\<open>retrieve\<close>, \<^verbatim>\<open>remove\<close>, \<^verbatim>\<open>exists\<close>) and the
  \<^verbatim>\<open>FileEncryption\<close> (\<^verbatim>\<open>encryptFile\<close>, \<^verbatim>\<open>encryptMultipleFiles\<close>). Every operation is a
  function from its arguments and the state it reads to its result and the state it leaves;
  a raised error is the left injection of the result. The definitions come first, the
  properties after them.
\<close>

section \<open>Errors\<close>

text \<open>
  The TypeScript sources raise \<^verbatim>\<open>Error\<close> objects that differ only in their message;
  every public operation catches the error and raises it again with a prefix naming the
  operation. The model keeps the root cause as a constructor and leaves the prefix out.
  The comment of each constructor gives the message of the source.
\<close>

datatype key_reason =
    EmptyKey      \<comment> \<open>Invalid key: must be a non-empty string\<close>
  | KeyTooLong    \<comment> \<open>Key too long: maximum 100 characters\<close>
  | InvalidChars  \<comment> \<open>Key contains invalid characters: ...\<close>

datatype error =
    InvalidInput            \<comment> \<open>Plaintext and password are required / Encrypted data and password are required\<close>
  | KeyDerivationFailure    \<comment> \<open>Failed to derive key from password\<close>
  | CipherFailure           \<comment> \<open>createCipheriv, update or final raised while encrypting\<close>
  | CloneFailure            \<comment> \<open>An object could not be cloned\<close>
  | AuthenticationFailure   \<comment> \<open>createDecipheriv, setAuthTag, update or final raised while decrypting\<close>
  | InvalidKey key_reason
  | PasswordTooShort        \<comment> \<open>Password must be at least 8 characters long\<close>
  | SerializationFailure    \<comment> \<open>JSON.stringify raised\<close>
  | HashFailure             \<comment> \<open>Failed to generate hash\<close>
  | CompressionFailure      \<comment> \<open>Compression failed\<close>
  | DecompressionFailure    \<comment> \<open>Decompression failed\<close>
  | NotFound                \<comment> \<open>Data not found\<close>
  | Expired                 \<comment> \<open>Data has expired\<close>
  | IntegrityFailure        \<comment> \<open>Data integrity check failed\<close>
  | ParseFailure            \<comment> \<open>JSON.parse raised\<close>
  | NotInitialized          \<comment> \<open>Key manager not initialized. Call initialize() first.\<close>
  | PolicyViolation         \<comment> \<open>Master password must ...\<close>
  | InvalidMasterPassword   \<comment> \<open>Invalid master password\<close>
  | KeyNotFound             \<comment> \<open>Key not found\<close>
  | KeyExpired              \<comment> \<open>Key has expired\<close>
  | NotAsymmetric           \<comment> \<open>Key is not an asymmetric key pair\<close>
  | KeyPairFailure          \<comment> \<open>Failed to generate key pair\<close>
  | TypeError               \<comment> \<open>a method called on a value that does not have it\<close>
  | InvalidExportFormat     \<comment> \<open>Invalid export format\<close>
  | FileTooLarge            \<comment> \<open>File size exceeds maximum limit of 50MB\<close>
  | FileTypeNotAllowed      \<comment> \<open>File type not allowed for security reasons\<close>
  | FileReadFailure         \<comment> \<open>Failed to read file\<close>

section \<open>Secure storage: keys\<close>

text \<open>
  Strings are \<^typ>\<open>string\<close>: one \<^typ>\<open>char\<close> per UTF-16 code unit below 256. The browser's
  \<^verbatim>\<open>localStorage\<close> is a map from strings to the stored values.
\<close>

definition is_space :: "char \<Rightarrow> bool" where
  "is_space c = (let n = (of_char c :: nat) in (9 \<le> n \<and> n \<le> 13) \<or> n = 32 \<or> n = 160)"

definition trim_empty :: "string \<Rightarrow> bool" where
  \<comment> \<open>\<^verbatim>\<open>key.trim().length === 0\<close>\<close>
  "trim_empty s = list_all is_space s"

definition key_char :: "char \<Rightarrow> bool" where
  \<comment> \<open>the character class \<^verbatim>\<open>[a-zA-Z0-9_-]\<close>\<close>
  "key_char c = (let n = (of_char c :: nat) in
     (97 \<le> n \<and> n \<le> 122) \<or> (65 \<le> n \<and> n \<le> 90) \<or> (48 \<le> n \<and> n \<le> 57) \<or> n = 95 \<or> n = 45)"

definition validateKey :: "string \<Rightarrow> error + unit" where
  "validateKey key =
     (if key = [] \<or> trim_empty key then Inl (InvalidKey EmptyKey)
      else if length key > 100 then Inl (InvalidKey KeyTooLong)
      else if \<not> (key \<noteq> [] \<and> list_all key_char key) then Inl (InvalidKey InvalidChars)
      else Inr ())"

definition storageKey :: string where
  "storageKey = ''zenithbill_secure_storage''"

definition fullKey :: "string \<Rightarrow> string" where
  "fullKey key = storageKey @ ''_'' @ key"

definition exists_item :: "(string \<rightharpoonup> 'v) \<Rightarrow> string \<Rightarrow> error + bool" where
  \<comment> \<open>\<^verbatim>\<open>exists\<close>: the \<^verbatim>\<open>catch\<close> turns every error of the body into \<^verbatim>\<open>false\<close>\<close>
  "exists_item ls key =
     (case (case validateKey key of
              Inl e \<Rightarrow> Inl e
            | Inr _ \<Rightarrow> Inr (ls (fullKey key) \<noteq> None)) of
        Inl e \<Rightarrow> Inr False
      | Inr b \<Rightarrow> Inr b)"

section \<open>Buffers, hex text and the random source\<close>

text \<open>
  A Node \<^verbatim>\<open>Buffer\<close> is a list of bytes. \<^verbatim>\<open>buf.toString('hex')\<close> writes two lower-case
  hex digits per byte; \<^verbatim>\<open>Buffer.from(s, 'hex')\<close> reads pairs of hex digits and stops at the
  first pair that is not one.
\<close>

type_synonym byte = "8 word"
type_synonym buffer = "byte list"

definition hexdigit :: "nat \<Rightarrow> char" where
  "hexdigit n = ''0123456789abcdef'' ! n"

definition hexval :: "char \<Rightarrow> nat option" where
  "hexval c = (let n = (of_char c :: nat) in
     if 48 \<le> n \<and> n \<le> 57 then Some (n - 48)
     else if 97 \<le> n \<and> n \<le> 102 then Some (n - 87)
     else if 65 \<le> n \<and> n \<le> 70 then Some (n - 55)
     else None)"

definition hex_of_byte :: "byte \<Rightarrow> string" where
  "hex_of_byte b = [hexdigit (unat b div 16), hexdigit (unat b mod 16)]"

definition to_hex :: "buffer \<Rightarrow> string" where
  "to_hex bs = concat (map hex_of_byte bs)"

fun from_hex :: "string \<Rightarrow> buffer" where
  "from_hex (a # b # rest) =
     (case (hexval a, hexval b) of
        (Some x, Some y) \<Rightarrow> word_of_nat (16 * x + y) # from_hex rest
      | _ \<Rightarrow> [])"
| "from_hex _ = []"

text \<open>
  \<^verbatim>\<open>randomBytes\<close> reads the operating system's random source. The source is an input of
  the model: an unbounded tape of bytes, of which every call takes the next \<open>n\<close>.
\<close>

type_synonym rng = "nat \<Rightarrow> byte"

definition randomBytes :: "nat \<Rightarrow> rng \<Rightarrow> buffer \<times> rng" where
  "randomBytes n tape = (map tape [0..<n], \<lambda>i. tape (i + n))"

section \<open>The primitives of the runtime\<close>

text \<open>
  The repository calls \<^verbatim>\<open>scrypt\<close>, \<^verbatim>\<open>createCipheriv\<close>, \<^verbatim>\<open>createDecipheriv\<close>,
  \<^verbatim>\<open>createHash\<close> and \<^verbatim>\<open>generateKeyPair\<close> of the Node runtime; they are not code of the
  repository, so the engine takes them as a parameter. \<open>None\<close> is a raised error.
  \<^item> \<open>scrypt password salt keylen\<close> is the derived key;
  \<^item> \<open>cipher alg key iv plaintext\<close> is \<^verbatim>\<open>createCipheriv\<close>, \<^verbatim>\<open>update(plaintext, 'utf8')\<close>,
    \<^verbatim>\<open>final()\<close> and \<^verbatim>\<open>getAuthTag()\<close>: the ciphertext and the tag;
  \<^item> \<open>decipher alg key iv tag ciphertext\<close> is \<^verbatim>\<open>createDecipheriv\<close>, \<^verbatim>\<open>setAuthTag\<close> when a
    tag is given, \<^verbatim>\<open>update\<close> and \<^verbatim>\<open>final('utf8')\<close>;
  \<^item> \<open>sha256 data\<close> is the hex digest of \<^verbatim>\<open>createHash('sha256')\<close>;
  \<^item> \<open>rsa size tape\<close> is \<^verbatim>\<open>generateKeyPair('rsa', ...)\<close>: the PEM texts of the public and
    the private key, drawn from the random source; the size \<open>None\<close> is \<^verbatim>\<open>NaN\<close>;
  \<^item> \<open>json_of_result\<close> and \<open>result_of_json\<close> are \<^verbatim>\<open>JSON.stringify\<close> and \<^verbatim>\<open>JSON.parse\<close> on an
    encryption result;
  \<^item> \<open>btoa\<close> and \<open>atob\<close> are the browser's base64 functions.
\<close>

datatype algorithm = AES_256_GCM | AES_256_CBC

record KeyPair =
  publicKey :: string
  privateKey :: string

record EncryptionResult =
  encryptedData :: string
  iv :: string
  salt :: string
  tag :: "string option"

record runtime =
  scrypt :: "string \<Rightarrow> buffer \<Rightarrow> nat \<Rightarrow> buffer option"
  cipher :: "algorithm \<Rightarrow> buffer \<Rightarrow> buffer \<Rightarrow> string \<Rightarrow> (buffer \<times> buffer) option"
  decipher :: "algorithm \<Rightarrow> buffer \<Rightarrow> buffer \<Rightarrow> buffer option \<Rightarrow> buffer \<Rightarrow> string option"
  sha256 :: "string \<Rightarrow> string"
  rsa :: "nat option \<Rightarrow> rng \<Rightarrow> KeyPair option \<times> rng"
  json_of_result :: "EncryptionResult \<Rightarrow> string"
  result_of_json :: "string \<Rightarrow> EncryptionResult option"
  btoa :: "string \<Rightarrow> string option"
  atob :: "string \<Rightarrow> string option"

text \<open>
  What the engine relies on: a ciphertext made under a key, an IV and an algorithm
  decrypts under the same three (and, for GCM, the tag that came with it) to the plaintext;
  the ciphertext of a non-empty plaintext is not empty; a GCM tag is not empty.
\<close>

definition aead_ok :: "runtime \<Rightarrow> bool" where
  "aead_ok L =
     (\<forall>alg key iv pt ct tg.
        cipher L alg key iv pt = Some (ct, tg) \<longrightarrow>
          decipher L alg key iv (if alg = AES_256_GCM then Some tg else None) ct = Some pt
          \<and> (pt \<noteq> [] \<longrightarrow> ct \<noteq> [])
          \<and> (alg = AES_256_GCM \<longrightarrow> tg \<noteq> []))"

section \<open>CryptoEngine\<close>

record EncryptionConfig =
  algorithm :: algorithm
  keyLength :: nat
  ivLength :: nat
  saltLength :: nat
  tagLength :: nat

definition DEFAULT_CONFIG :: EncryptionConfig where
  "DEFAULT_CONFIG =
     \<lparr>algorithm = AES_256_GCM, keyLength = 32, ivLength = 16, saltLength = 32, tagLength = 16\<rparr>"

definition generateSecureKey :: "EncryptionConfig \<Rightarrow> rng \<Rightarrow> string \<times> rng" where
  "generateSecureKey cfg tape =
     (let (key, tape') = randomBytes (keyLength cfg) tape in (to_hex key, tape'))"

definition deriveKey :: "runtime \<Rightarrow> EncryptionConfig \<Rightarrow> string \<Rightarrow> buffer \<Rightarrow> error + buffer" where
  "deriveKey L cfg password slt =
     (case scrypt L password slt (keyLength cfg) of
        None \<Rightarrow> Inl KeyDerivationFailure
      | Some derivedKey \<Rightarrow> Inr derivedKey)"

definition encryptText ::
  "runtime \<Rightarrow> EncryptionConfig \<Rightarrow> string \<Rightarrow> string \<Rightarrow> rng \<Rightarrow> (error + EncryptionResult) \<times> rng"
where
  "encryptText L cfg plaintext password tape =
     (if plaintext = [] \<or> password = [] then (Inl InvalidInput, tape)
      else
        let (slt, tape1) = randomBytes (saltLength cfg) tape;
            (ivb, tape2) = randomBytes (ivLength cfg) tape1
        in case deriveKey L cfg password slt of
             Inl e \<Rightarrow> (Inl e, tape2)
           | Inr key \<Rightarrow>
               (case cipher L (algorithm cfg) key ivb plaintext of
                  None \<Rightarrow> (Inl CipherFailure, tape2)
                | Some (encrypted, tg) \<Rightarrow>
                    (Inr \<lparr>encryptedData = to_hex encrypted,
                          iv = to_hex ivb,
                          salt = to_hex slt,
                          tag = (if algorithm cfg = AES_256_GCM then Some (to_hex tg) else None)\<rparr>,
                     tape2)))"

definition decryptText ::
  "runtime \<Rightarrow> EncryptionConfig \<Rightarrow> EncryptionResult \<Rightarrow> string \<Rightarrow> error + string"
where
  "decryptText L cfg encryptionResult password =
     (if encryptedData encryptionResult = [] \<or> password = [] then Inl InvalidInput
      else
        let slt = from_hex (salt encryptionResult);
            ivb = from_hex (iv encryptionResult)
        in case deriveKey L cfg password slt of
             Inl e \<Rightarrow> Inl e
           | Inr key \<Rightarrow>
               (let tg = (case tag encryptionResult of
                            None \<Rightarrow> None
                          | Some t \<Rightarrow>
                              if algorithm cfg = AES_256_GCM \<and> t \<noteq> [] then Some (from_hex t)
                              else None)
                in case decipher L (algorithm cfg) key ivb tg
                          (from_hex (encryptedData encryptionResult)) of
                     None \<Rightarrow> Inl AuthenticationFailure
                   | Some decrypted \<Rightarrow> Inr decrypted))"

definition generateSecureHash :: "runtime \<Rightarrow> string \<Rightarrow> string" where
  "generateSecureHash L data = sha256 L data"

section \<open>The two classes \<^verbatim>\<open>CryptoEngine\<close>\<close>

text \<open>
  The repository holds two classes \<^verbatim>\<open>CryptoEngine\<close> with the same methods.
  \<^item> \<open>Direct\<close> is the class of \<^verbatim>\<open>part_001\<close>, modelled above: it calls the runtime's
    \<^verbatim>\<open>crypto\<close> module itself, and its \<^verbatim>\<open>generateSecureKey\<close>, \<^verbatim>\<open>generateSecureHash\<close> and
    signature methods are synchronous.
  \<^item> \<open>Bridge\<close> is the class of \<^verbatim>\<open>src/utils/encryption/cryptoEngine.ts\<close>, the module that
    \<^verbatim>\<open>keyManager.ts\<close>, \<^verbatim>\<open>secureStorage.ts\<close> and \<^verbatim>\<open>fileEncryption.ts\<close> import as
    \<^verbatim>\<open>./cryptoEngine\<close>. It hands every call to the main process through
    \<^verbatim>\<open>window.electronAPI\<close>, whose handlers (\<^verbatim>\<open>part_003\<close>) run the code of \<open>Direct\<close> on
    the same primitives. All its methods are \<^verbatim>\<open>async\<close>: a call that is not awaited gives a
    promise instead of the value.
  Every caller awaits \<^verbatim>\<open>encryptText\<close>, \<^verbatim>\<open>decryptText\<close> and \<^verbatim>\<open>generateKeyPair\<close>, so these
  are the functions above for both classes. \<^verbatim>\<open>KeyManager\<close> calls \<^verbatim>\<open>generateSecureKey\<close> and
  \<^verbatim>\<open>SecureStorage\<close> calls \<^verbatim>\<open>generateSecureHash\<close> without \<^verbatim>\<open>await\<close>; what they get depends
  on the class.
\<close>

datatype engine = Direct | Bridge

datatype 'a returned =
    Value 'a     \<comment> \<open>the value itself\<close>
  | Promise 'a   \<comment> \<open>a promise that resolves to the value\<close>

definition unawaited :: "engine \<Rightarrow> 'a \<Rightarrow> 'a returned" where
  \<comment> \<open>the result of calling a method of the engine without \<^verbatim>\<open>await\<close>\<close>
  "unawaited E x = (case E of Direct \<Rightarrow> Value x | Bridge \<Rightarrow> Promise x)"

definition encryptText_of ::
  "runtime \<Rightarrow> EncryptionConfig \<Rightarrow> string returned \<Rightarrow> string \<Rightarrow> rng
     \<Rightarrow> (error + EncryptionResult) \<times> rng"
where
  \<comment> \<open>\<^verbatim>\<open>encryptText\<close> on what the caller passes as plaintext. A promise is truthy, so it
      passes the check for an empty plaintext; the bridge cannot send it to the main
      process.\<close>
  "encryptText_of L cfg plaintext password tape =
     (case plaintext of
        Value t \<Rightarrow> encryptText L cfg t password tape
      | Promise t \<Rightarrow>
          if password = [] then (Inl InvalidInput, tape) else (Inl CloneFailure, tape))"

text \<open>
  The checksum that \<^verbatim>\<open>SecureStorage\<close> keeps is what \<^verbatim>\<open>generateSecureHash\<close> gave without
  \<^verbatim>\<open>await\<close>: the digest, or a promise of it. \<^verbatim>\<open>JSON.stringify\<close> writes a promise as \<^verbatim>\<open>{}\<close>,
  which \<^verbatim>\<open>JSON.parse\<close> reads as an empty object. The operator \<^verbatim>\<open>!==\<close> compares two strings
  by their characters; an object differs from every string and from every other object.
\<close>

datatype hash_value = Digest string | DigestPromise string | EmptyObject

definition hash_unawaited :: "engine \<Rightarrow> runtime \<Rightarrow> string \<Rightarrow> hash_value" where
  "hash_unawaited E L data =
     (case unawaited E (generateSecureHash L data) of
        Value h \<Rightarrow> Digest h
      | Promise h \<Rightarrow> DigestPromise h)"

definition json_hash :: "hash_value \<Rightarrow> hash_value" where
  "json_hash h = (case h of Digest d \<Rightarrow> Digest d | DigestPromise d \<Rightarrow> EmptyObject
                  | EmptyObject \<Rightarrow> EmptyObject)"

definition strict_neq :: "hash_value \<Rightarrow> hash_value \<Rightarrow> bool" where
  \<comment> \<open>\<^verbatim>\<open>a !== b\<close>, where \<open>a\<close> was made by this call and \<open>b\<close> was read from storage\<close>
  "strict_neq a b = (case (a, b) of (Digest x, Digest y) \<Rightarrow> x \<noteq> y | _ \<Rightarrow> True)"

section \<open>Dates and numbers\<close>

text \<open>
  A \<^verbatim>\<open>Date\<close> object holds a time value, an instant in milliseconds of magnitude up to
  \<open>8640000000000000\<close>, or is an \<^emph>\<open>Invalid Date\<close>: \<^verbatim>\<open>new Date(x)\<close> is invalid for a number
  \<open>x\<close> beyond that range. \<^verbatim>\<open>JSON.stringify\<close> writes a valid \<^verbatim>\<open>Date\<close> as its ISO text and an
  invalid one as \<^verbatim>\<open>null\<close>, and \<^verbatim>\<open>JSON.parse\<close>, called without a reviver throughout the
  sources, gives the text back as a string. A date field that went through
  \<^verbatim>\<open>localStorage\<close> or an export therefore holds a string or \<^verbatim>\<open>null\<close>: \<open>DateIso t\<close> is the ISO
  text of the instant \<open>t\<close>. The operators \<^verbatim>\<open><\<close>, \<^verbatim>\<open><=\<close> and \<^verbatim>\<open>>\<close> convert both sides to
  numbers: a valid \<^verbatim>\<open>Date\<close> to its time value, an invalid one and an ISO text to \<^verbatim>\<open>NaN\<close>,
  which makes the comparison false, and \<^verbatim>\<open>null\<close> to 0. A string has no \<^verbatim>\<open>getTime\<close>; on an
  invalid \<^verbatim>\<open>Date\<close> it gives \<^verbatim>\<open>NaN\<close>. Of the four only \<^verbatim>\<open>null\<close> is falsy.
\<close>

datatype jsdate = DateObj int | InvalidDate | DateIso int | DateNull

definition max_time :: int where
  "max_time = 8640000000000000"

definition new_Date :: "int \<Rightarrow> jsdate" where
  \<comment> \<open>\<^verbatim>\<open>new Date(x)\<close> for a whole number \<open>x\<close>\<close>
  "new_Date x = (if - max_time \<le> x \<and> x \<le> max_time then DateObj x else InvalidDate)"

text \<open>
  A reading of the clock, \<^verbatim>\<open>Date.now()\<close> or \<^verbatim>\<open>new Date()\<close>, is a time value; it counts the
  milliseconds since the epoch. The sums, differences and quotients that the sources form
  from such readings and from the time values of dates after the epoch stay below \<open>2 ^ 53\<close>,
  where the numbers of the runtime are exact, or overflow the range of \<^verbatim>\<open>Date\<close> with or
  without rounding; the arithmetic of \<open>int\<close> stands for them.
\<close>

definition clock_reading :: "int \<Rightarrow> bool" where
  "clock_reading t = (0 \<le> t \<and> t \<le> max_time)"

definition truthy :: "jsdate \<Rightarrow> bool" where
  "truthy d = (d \<noteq> DateNull)"

definition date_lt :: "jsdate \<Rightarrow> int \<Rightarrow> bool" where
  \<comment> \<open>\<^verbatim>\<open>d < new Date()\<close> at the instant \<open>now\<close>\<close>
  "date_lt d now = (case d of DateObj t \<Rightarrow> t < now | InvalidDate \<Rightarrow> False
                    | DateIso t \<Rightarrow> False | DateNull \<Rightarrow> 0 < now)"

definition date_le :: "jsdate \<Rightarrow> jsdate \<Rightarrow> bool" where
  \<comment> \<open>\<^verbatim>\<open>d <= cutoffDate\<close>, where \<open>cutoffDate\<close> is a \<^verbatim>\<open>Date\<close>, valid or not\<close>
  "date_le d cutoffDate =
     (case cutoffDate of
        DateObj c \<Rightarrow> (case d of DateObj t \<Rightarrow> t \<le> c | InvalidDate \<Rightarrow> False
                      | DateIso t \<Rightarrow> False | DateNull \<Rightarrow> 0 \<le> c)
      | _ \<Rightarrow> False)"

definition date_gt :: "jsdate \<Rightarrow> int \<Rightarrow> bool" where
  \<comment> \<open>\<^verbatim>\<open>d > new Date()\<close> at the instant \<open>now\<close>\<close>
  "date_gt d now = (case d of DateObj t \<Rightarrow> t > now | InvalidDate \<Rightarrow> False
                    | DateIso t \<Rightarrow> False | DateNull \<Rightarrow> 0 > now)"

definition getTime :: "jsdate \<Rightarrow> error + int option" where
  \<comment> \<open>\<^verbatim>\<open>d.getTime()\<close>: the number \<open>None\<close> is \<^verbatim>\<open>NaN\<close>\<close>
  "getTime d = (case d of DateObj t \<Rightarrow> Inr (Some t) | InvalidDate \<Rightarrow> Inr None
                    | DateIso t \<Rightarrow> Inl TypeError | DateNull \<Rightarrow> Inl TypeError)"

definition json_date :: "jsdate \<Rightarrow> jsdate" where
  \<comment> \<open>\<^verbatim>\<open>JSON.parse(JSON.stringify(d))\<close>\<close>
  "json_date d = (case d of DateObj t \<Rightarrow> DateIso t | InvalidDate \<Rightarrow> DateNull
                    | DateIso t \<Rightarrow> DateIso t | DateNull \<Rightarrow> DateNull)"

definition day_ms :: int where
  "day_ms = 24 * 60 * 60 * 1000"

definition ceil_div :: "int \<Rightarrow> int \<Rightarrow> int" where
  \<comment> \<open>\<^verbatim>\<open>Math.ceil(a / b)\<close> for \<open>b > 0\<close>\<close>
  "ceil_div a b = - ((- a) div b)"

function dec_pos :: "int \<Rightarrow> string" where
  \<comment> \<open>the decimal digits of a number that is not negative\<close>
  "dec_pos i = (if i < 10 then [''0123456789'' ! nat i]
                else dec_pos (i div 10) @ [''0123456789'' ! nat (i mod 10)])"
  by pat_completeness auto
termination
  by (relation "measure nat") auto

definition dec_int :: "int \<Rightarrow> string" where
  "dec_int i = (if i < 0 then CHR ''-'' # dec_pos (- i) else dec_pos i)"

definition dec :: "nat \<Rightarrow> string" where
  "dec n = dec_pos (int n)"

definition digit_val :: "char \<Rightarrow> nat option" where
  "digit_val c = (let n = (of_char c :: nat) in if 48 \<le> n \<and> n \<le> 57 then Some (n - 48) else None)"

fun parse_digits :: "nat option \<Rightarrow> string \<Rightarrow> nat option" where
  "parse_digits acc [] = acc"
| "parse_digits acc (c # cs) =
     (case digit_val c of
        None \<Rightarrow> acc
      | Some d \<Rightarrow> parse_digits (Some ((case acc of None \<Rightarrow> 0 | Some a \<Rightarrow> a) * 10 + d)) cs)"

definition parseInt :: "string option \<Rightarrow> nat option" where
  \<comment> \<open>the leading decimal digits; \<open>None\<close> is \<^verbatim>\<open>NaN\<close>. Signs, blanks and the prefix
      \<^verbatim>\<open>0x\<close> of the runtime's \<^verbatim>\<open>parseInt\<close> are left out: no key size has them.\<close>
  "parseInt s = (case s of None \<Rightarrow> None | Some t \<Rightarrow> parse_digits None t)"

fun split_dash :: "string \<Rightarrow> string list" where
  \<comment> \<open>\<^verbatim>\<open>s.split('-')\<close>\<close>
  "split_dash [] = [[]]"
| "split_dash (c # cs) =
     (if c = CHR ''-'' then [] # split_dash cs
      else (case split_dash cs of
              w # ws \<Rightarrow> (c # w) # ws
            | [] \<Rightarrow> [[c]]))"

definition second_field :: "string \<Rightarrow> string option" where
  \<comment> \<open>\<^verbatim>\<open>s.split('-')[1]\<close>: \<open>None\<close> is \<^verbatim>\<open>undefined\<close>\<close>
  "second_field s = (case split_dash s of a # b # rest \<Rightarrow> Some b | _ \<Rightarrow> None)"

section \<open>KeyManager\<close>

datatype key_type = Symmetric | Asymmetric

record KeyMetadata =
  purpose :: string
  owner :: string
  permissions :: "string list"

text \<open>The fields \<^verbatim>\<open>id\<close>, \<^verbatim>\<open>type\<close>, \<^verbatim>\<open>algorithm\<close> and \<^verbatim>\<open>publicKey\<close> of \<^verbatim>\<open>StoredKey\<close> are
  \<open>keyId\<close>, \<open>keyType\<close>, \<open>keyAlgorithm\<close> and \<open>keyPublic\<close> here.\<close>

record StoredKey =
  keyId :: string
  name :: string
  keyType :: key_type
  keyAlgorithm :: string
  keyData :: string
  keyPublic :: "string option"
  createdAt :: jsdate
  expiresAt :: "jsdate option"
  metadata :: KeyMetadata

record KeyInfo =
  infoId :: string
  infoName :: string
  infoType :: key_type
  infoAlgorithm :: string
  infoPublic :: "string option"
  infoCreatedAt :: jsdate
  infoExpiresAt :: "jsdate option"
  infoMetadata :: KeyMetadata

text \<open>
  The state of a key manager and of what it touches: its \<^verbatim>\<open>Map\<close> of keys in insertion
  order, its master password (\<open>None\<close> is \<^verbatim>\<open>null\<close>), the entry
  \<^verbatim>\<open>zenithbill_encrypted_keys\<close> of \<^verbatim>\<open>localStorage\<close> (\<open>None\<close> when absent) and the random
  source. The clock and \<^verbatim>\<open>Math.random\<close> are arguments of the operations that read them:
  \<open>now\<close> is a reading of the clock, \<open>rnd\<close> the text
  \<^verbatim>\<open>Math.random().toString(36).substr(2, 9)\<close>. The number of days of an expiry is a whole
  number. An expiry \<open>None\<close> is a field that is \<^verbatim>\<open>undefined\<close> or absent. The security log of the key manager is write-only and is left out, and so is a
  failure of \<^verbatim>\<open>localStorage.setItem\<close>. \<^verbatim>\<open>changeMasterPassword\<close> is not modelled.
\<close>

record KeyManager =
  keys :: "(string \<times> StoredKey) list"
  masterPassword :: "string option"
  persisted :: "(string \<times> StoredKey) list option"
  rand :: rng

definition json_key :: "StoredKey \<Rightarrow> StoredKey" where
  \<comment> \<open>a stored key after \<^verbatim>\<open>JSON.stringify\<close> and \<^verbatim>\<open>JSON.parse\<close>\<close>
  "json_key k = k\<lparr>createdAt := json_date (createdAt k),
                   expiresAt := map_option json_date (expiresAt k)\<rparr>"

definition map_set :: "'k \<Rightarrow> 'v \<Rightarrow> ('k \<times> 'v) list \<Rightarrow> ('k \<times> 'v) list" where
  \<comment> \<open>\<^verbatim>\<open>Map.set\<close>: in place for a key that is there, at the end otherwise\<close>
  "map_set k v m = AList.update k v m"

definition map_delete :: "'k \<Rightarrow> ('k \<times> 'v) list \<Rightarrow> ('k \<times> 'v) list" where
  "map_delete k m = AList.delete k m"

definition new_Map :: "('k \<times> 'v) list \<Rightarrow> ('k \<times> 'v) list" where
  \<comment> \<open>\<^verbatim>\<open>new Map(entries)\<close>\<close>
  "new_Map entries = fold (\<lambda>(k, v). map_set k v) entries []"

definition saveKeysToStorage :: "KeyManager \<Rightarrow> KeyManager" where
  "saveKeysToStorage km = km\<lparr>persisted := Some (map (\<lambda>(i, k). (i, json_key k)) (keys km))\<rparr>"

definition loadKeysFromStorage :: "KeyManager \<Rightarrow> KeyManager" where
  "loadKeysFromStorage km =
     (case persisted km of
        None \<Rightarrow> km
      | Some keysArray \<Rightarrow> km\<lparr>keys := new_Map keysArray\<rparr>)"

definition new_KeyManager :: "(string \<times> StoredKey) list option \<Rightarrow> rng \<Rightarrow> KeyManager" where
  \<comment> \<open>the constructor, on the contents of \<^verbatim>\<open>localStorage\<close>\<close>
  "new_KeyManager stored t =
     loadKeysFromStorage \<lparr>keys = [], masterPassword = None, persisted = stored, rand = t\<rparr>"

definition ensureInitialized :: "KeyManager \<Rightarrow> error + string" where
  \<comment> \<open>returns the master password that the callers read next\<close>
  "ensureInitialized km =
     (case masterPassword km of
        None \<Rightarrow> Inl NotInitialized
      | Some pw \<Rightarrow> if pw = [] then Inl NotInitialized else Inr pw)"

definition in_range :: "char \<Rightarrow> char \<Rightarrow> char \<Rightarrow> bool" where
  "in_range lo hi c = ((of_char lo :: nat) \<le> of_char c \<and> (of_char c :: nat) \<le> of_char hi)"

definition validateMasterPassword :: "string \<Rightarrow> error + unit" where
  "validateMasterPassword password =
     (if password = [] \<or> length password < 12 then Inl PolicyViolation
      else
        let hasUpperCase = list_ex (in_range CHR ''A'' CHR ''Z'') password;
            hasLowerCase = list_ex (in_range CHR ''a'' CHR ''z'') password;
            hasNumbers = list_ex (in_range CHR ''0'' CHR ''9'') password;
            hasSpecialChar = list_ex (\<lambda>c. c \<in> set ''!@#$%^&*(),.?\":{}|<>'') password
        in if \<not> (hasUpperCase \<and> hasLowerCase \<and> hasNumbers \<and> hasSpecialChar)
           then Inl PolicyViolation
           else Inr ())"

definition verifyMasterPassword :: "runtime \<Rightarrow> KeyManager \<Rightarrow> error + unit" where
  "verifyMasterPassword L km =
     (case keys km of
        [] \<Rightarrow> Inr ()
      | (i, firstKey) # rest \<Rightarrow>
          (case result_of_json L (keyData firstKey) of
             None \<Rightarrow> Inl InvalidMasterPassword
           | Some encryptedKey \<Rightarrow>
               (case decryptText L DEFAULT_CONFIG encryptedKey
                       (case masterPassword km of None \<Rightarrow> [] | Some pw \<Rightarrow> pw) of
                  Inl e \<Rightarrow> Inl InvalidMasterPassword
                | Inr decrypted \<Rightarrow> Inr ())))"

definition initialize :: "runtime \<Rightarrow> string \<Rightarrow> KeyManager \<Rightarrow> (error + unit) \<times> KeyManager" where
  "initialize L password km =
     (case validateMasterPassword password of
        Inl e \<Rightarrow> (Inl e, km)
      | Inr u \<Rightarrow>
          (let km1 = km\<lparr>masterPassword := Some password\<rparr>
           in case verifyMasterPassword L km1 of
                Inl e \<Rightarrow> (Inl e, km1)
              | Inr v \<Rightarrow> (Inr (), km1)))"

definition generateKeyId :: "int \<Rightarrow> string \<Rightarrow> string" where
  "generateKeyId now rnd = ''key_'' @ dec_int now @ ''_'' @ rnd"

definition expiry_of :: "int option \<Rightarrow> int \<Rightarrow> jsdate option" where
  \<comment> \<open>\<^verbatim>\<open>expirationDays ? new Date(Date.now() + expirationDays * 24 * 60 * 60 * 1000) : undefined\<close>;
      the days \<open>None\<close> are \<^verbatim>\<open>undefined\<close> or \<^verbatim>\<open>NaN\<close>, which like the number 0 are falsy\<close>
  "expiry_of expirationDays now =
     (case expirationDays of
        None \<Rightarrow> None
      | Some d \<Rightarrow> if d = 0 then None else Some (new_Date (now + d * day_ms)))"

text \<open>
  A generation reads the clock three times: for the id, then, after the key material is
  made and encrypted, for the expiry, and last for \<^verbatim>\<open>createdAt\<close>. \<open>idTime\<close>, \<open>expiryTime\<close>
  and \<open>createdTime\<close> are the three readings.
\<close>

definition generateSymmetricKey ::
  "engine \<Rightarrow> runtime \<Rightarrow> string \<Rightarrow> string \<Rightarrow> string \<Rightarrow> int option \<Rightarrow> int \<Rightarrow> string
     \<Rightarrow> int \<Rightarrow> int \<Rightarrow> KeyManager \<Rightarrow> (error + string) \<times> KeyManager"
where
  "generateSymmetricKey E L nm purp ownr expirationDays idTime rnd expiryTime createdTime km =
     (case ensureInitialized km of
        Inl e \<Rightarrow> (Inl e, km)
      | Inr pw \<Rightarrow>
          (let kid = generateKeyId idTime rnd;
               (material, tape1) = generateSecureKey DEFAULT_CONFIG (rand km);
               keyMaterial = unawaited E material;
               (enc, tape2) = encryptText_of L DEFAULT_CONFIG keyMaterial pw tape1;
               km1 = km\<lparr>rand := tape2\<rparr>
           in case enc of
                Inl e \<Rightarrow> (Inl e, km1)
              | Inr encryptedKey \<Rightarrow>
                  (let storedKey =
                         \<lparr>keyId = kid, name = nm, keyType = Symmetric, keyAlgorithm = ''AES-256'',
                          keyData = json_of_result L encryptedKey, keyPublic = None,
                          createdAt = DateObj createdTime,
                          expiresAt = expiry_of expirationDays expiryTime,
                          metadata = \<lparr>purpose = purp, owner = ownr,
                                      permissions = [''encrypt'', ''decrypt'']\<rparr>\<rparr>
                   in (Inr kid, saveKeysToStorage (km1\<lparr>keys := map_set kid storedKey (keys km1)\<rparr>)))))"

definition generateAsymmetricKeyPair ::
  "runtime \<Rightarrow> string \<Rightarrow> string \<Rightarrow> string \<Rightarrow> nat option \<Rightarrow> int option \<Rightarrow> int \<Rightarrow> string
     \<Rightarrow> int \<Rightarrow> int \<Rightarrow> KeyManager \<Rightarrow> (error + string) \<times> KeyManager"
where
  "generateAsymmetricKeyPair L nm purp ownr keySize expirationDays idTime rnd expiryTime createdTime km =
     (case ensureInitialized km of
        Inl e \<Rightarrow> (Inl e, km)
      | Inr pw \<Rightarrow>
          (let kid = generateKeyId idTime rnd;
               (pair, tape1) = rsa L keySize (rand km)
           in case pair of
                None \<Rightarrow> (Inl KeyPairFailure, km\<lparr>rand := tape1\<rparr>)
              | Some keyPair \<Rightarrow>
                  (let (enc, tape2) = encryptText L DEFAULT_CONFIG (privateKey keyPair) pw tape1;
                       km1 = km\<lparr>rand := tape2\<rparr>
                   in case enc of
                        Inl e \<Rightarrow> (Inl e, km1)
                      | Inr encryptedPrivateKey \<Rightarrow>
                          (let storedKey =
                                 \<lparr>keyId = kid, name = nm, keyType = Asymmetric,
                                  keyAlgorithm = ''RSA-'' @ (case keySize of None \<Rightarrow> ''NaN'' | Some n \<Rightarrow> dec n),
                                  keyData = json_of_result L encryptedPrivateKey,
                                  keyPublic = Some (publicKey keyPair),
                                  createdAt = DateObj createdTime,
                                  expiresAt = expiry_of expirationDays expiryTime,
                                  metadata = \<lparr>purpose = purp, owner = ownr,
                                              permissions = [''sign'', ''decrypt'']\<rparr>\<rparr>
                           in (Inr kid,
                               saveKeysToStorage (km1\<lparr>keys := map_set kid storedKey (keys km1)\<rparr>))))))"

definition getKey :: "runtime \<Rightarrow> string \<Rightarrow> int \<Rightarrow> KeyManager \<Rightarrow> error + string" where
  "getKey L kid now km =
     (case ensureInitialized km of
        Inl e \<Rightarrow> Inl e
      | Inr pw \<Rightarrow>
          (case map_of (keys km) kid of
             None \<Rightarrow> Inl KeyNotFound
           | Some storedKey \<Rightarrow>
               if (case expiresAt storedKey of
                     None \<Rightarrow> False
                   | Some d \<Rightarrow> truthy d \<and> date_lt d now)
               then Inl KeyExpired
               else (case result_of_json L (keyData storedKey) of
                       None \<Rightarrow> Inl ParseFailure
                     | Some encryptedKey \<Rightarrow> decryptText L DEFAULT_CONFIG encryptedKey pw)))"

definition getPublicKey :: "string \<Rightarrow> KeyManager \<Rightarrow> error + string" where
  "getPublicKey kid km =
     (case map_of (keys km) kid of
        None \<Rightarrow> Inl KeyNotFound
      | Some storedKey \<Rightarrow>
          (case keyPublic storedKey of
             None \<Rightarrow> Inl NotAsymmetric
           | Some pk \<Rightarrow>
               if keyType storedKey \<noteq> Asymmetric \<or> pk = [] then Inl NotAsymmetric
               else Inr pk))"

definition key_info :: "StoredKey \<Rightarrow> KeyInfo" where
  "key_info key =
     \<lparr>infoId = keyId key, infoName = name key, infoType = keyType key,
      infoAlgorithm = keyAlgorithm key, infoPublic = keyPublic key,
      infoCreatedAt = createdAt key, infoExpiresAt = expiresAt key,
      infoMetadata = metadata key\<rparr>"

definition listKeys :: "KeyManager \<Rightarrow> KeyInfo list" where
  "listKeys km = map key_info (map snd (keys km))"

definition deleteKey :: "string \<Rightarrow> KeyManager \<Rightarrow> (error + unit) \<times> KeyManager" where
  "deleteKey kid km =
     (case ensureInitialized km of
        Inl e \<Rightarrow> (Inl e, km)
      | Inr pw \<Rightarrow>
          (case map_of (keys km) kid of
             None \<Rightarrow> (Inl KeyNotFound, km)
           | Some storedKey \<Rightarrow>
               (Inr (), saveKeysToStorage (km\<lparr>keys := map_delete kid (keys km)\<rparr>))))"

definition remaining_days :: "StoredKey \<Rightarrow> int \<Rightarrow> error + int option" where
  \<comment> \<open>\<^verbatim>\<open>oldKey.expiresAt ? Math.ceil((oldKey.expiresAt.getTime() - Date.now()) / (24 * 60 * 60 * 1000)) : undefined\<close>;
      the result \<open>None\<close> is \<^verbatim>\<open>undefined\<close> or \<^verbatim>\<open>NaN\<close>\<close>
  "remaining_days oldKey now =
     (case expiresAt oldKey of
        None \<Rightarrow> Inr None
      | Some d \<Rightarrow>
          if \<not> truthy d then Inr None
          else (case getTime d of
                  Inl e \<Rightarrow> Inl e
                | Inr None \<Rightarrow> Inr None
                | Inr (Some t) \<Rightarrow> Inr (Some (ceil_div (t - now) day_ms))))"

definition rotateKey ::
  "engine \<Rightarrow> runtime \<Rightarrow> string \<Rightarrow> int \<Rightarrow> int \<Rightarrow> string \<Rightarrow> int \<Rightarrow> int \<Rightarrow> KeyManager
     \<Rightarrow> (error + string) \<times> KeyManager"
where
  \<comment> \<open>\<open>now\<close> is the reading of the clock that \<^verbatim>\<open>rotateKey\<close> takes for the remaining days,
      the others are those of the generation it calls\<close>
  "rotateKey E L kid now idTime rnd expiryTime createdTime km =
     (case ensureInitialized km of
        Inl e \<Rightarrow> (Inl e, km)
      | Inr pw \<Rightarrow>
          (case map_of (keys km) kid of
             None \<Rightarrow> (Inl KeyNotFound, km)
           | Some oldKey \<Rightarrow>
               (let (generated, km1) =
                      (if keyType oldKey = Symmetric then
                         (case remaining_days oldKey now of
                            Inl e \<Rightarrow> (Inl e, km)
                          | Inr days \<Rightarrow>
                              generateSymmetricKey E L (name oldKey) (purpose (metadata oldKey))
                                (owner (metadata oldKey)) days idTime rnd expiryTime createdTime km)
                       else
                         (let keySize = parseInt (second_field (keyAlgorithm oldKey))
                          in case remaining_days oldKey now of
                               Inl e \<Rightarrow> (Inl e, km)
                             | Inr days \<Rightarrow>
                                 generateAsymmetricKeyPair L (name oldKey) (purpose (metadata oldKey))
                                   (owner (metadata oldKey)) keySize days idTime rnd expiryTime
                                   createdTime km))
                in case generated of
                     Inl e \<Rightarrow> (Inl e, km1)
                   | Inr newKeyId \<Rightarrow>
                       (case deleteKey kid km1 of
                          (Inl e, km2) \<Rightarrow> (Inl e, km2)
                        | (Inr u, km2) \<Rightarrow> (Inr newKeyId, km2)))))"

text \<open>The generation step of \<^verbatim>\<open>rotateKey\<close> once the remaining days are known; the
  proofs about \<^verbatim>\<open>rotateKey\<close> go through it.\<close>

definition rotate_generate ::
  "engine \<Rightarrow> runtime \<Rightarrow> StoredKey \<Rightarrow> int option \<Rightarrow> int \<Rightarrow> string \<Rightarrow> int \<Rightarrow> int \<Rightarrow> KeyManager
     \<Rightarrow> (error + string) \<times> KeyManager"
where
  "rotate_generate E L oldKey days idTime rnd expiryTime createdTime km =
     (if keyType oldKey = Symmetric then
        generateSymmetricKey E L (name oldKey) (purpose (metadata oldKey)) (owner (metadata oldKey))
          days idTime rnd expiryTime createdTime km
      else
        generateAsymmetricKeyPair L (name oldKey) (purpose (metadata oldKey)) (owner (metadata oldKey))
          (parseInt (second_field (keyAlgorithm oldKey))) days idTime rnd expiryTime createdTime km)"

definition getExpiringKeys :: "int \<Rightarrow> int \<Rightarrow> KeyManager \<Rightarrow> StoredKey list" where
  \<comment> \<open>the call does not wait: its readings of the clock, one for the cutoff and one for each
      key it compares, are the one reading \<open>now\<close>\<close>
  "getExpiringKeys daysAhead now km =
     (let cutoffDate = new_Date (now + daysAhead * day_ms)
      in filter (\<lambda>key. case expiresAt key of
                          None \<Rightarrow> False
                        | Some d \<Rightarrow> truthy d \<and> date_le d cutoffDate \<and> date_gt d now)
           (map snd (keys km)))"

text \<open>An export is the JSON text of \<^verbatim>\<open>{version, exportedAt, keys}\<close>. The model keeps the
  three fields as \<^verbatim>\<open>JSON.parse\<close> returns them; \<open>Unparsable\<close> is a text that
  \<^verbatim>\<open>JSON.parse\<close> refuses.\<close>

datatype key_export =
    Unparsable
  | Export (version: "string option") (exportedAt: int) (exported: "StoredKey list option")

definition exportKeys :: "int \<Rightarrow> KeyManager \<Rightarrow> error + key_export" where
  "exportKeys now km =
     (case ensureInitialized km of
        Inl e \<Rightarrow> Inl e
      | Inr pw \<Rightarrow> Inr (Export (Some ''1.0'') now (Some (map (json_key \<circ> snd) (keys km)))))"

fun import_loop :: "StoredKey list \<Rightarrow> (string \<times> StoredKey) list \<Rightarrow> (string \<times> StoredKey) list" where
  "import_loop [] m = m"
| "import_loop (k # ks) m =
     import_loop ks (if map_of m (keyId k) = None then map_set (keyId k) k m else m)"

definition importKeys :: "key_export \<Rightarrow> KeyManager \<Rightarrow> (error + unit) \<times> KeyManager" where
  "importKeys exportData km =
     (case ensureInitialized km of
        Inl e \<Rightarrow> (Inl e, km)
      | Inr pw \<Rightarrow>
          (case exportData of
             Unparsable \<Rightarrow> (Inl ParseFailure, km)
           | Export v at ks \<Rightarrow>
               (case ks of
                  None \<Rightarrow> (Inl InvalidExportFormat, km)
                | Some keyList \<Rightarrow>
                    if v = None \<or> v = Some [] then (Inl InvalidExportFormat, km)
                    else (Inr (), saveKeysToStorage (km\<lparr>keys := import_loop keyList (keys km)\<rparr>)))))"

section \<open>SecureStorage\<close>

text \<open>
  The fields \<^verbatim>\<open>id\<close>, \<^verbatim>\<open>encryptedData\<close> and \<^verbatim>\<open>metadata\<close> of \<^verbatim>\<open>SecureStorageItem\<close> are
  \<open>itemId\<close>, \<open>itemData\<close> and \<open>itemMetadata\<close> here; \<^verbatim>\<open>createdAt\<close>, \<^verbatim>\<open>expiresAt\<close> and
  \<^verbatim>\<open>keyId\<close> of its metadata are \<open>itemCreatedAt\<close>, \<open>itemExpiresAt\<close> and \<open>itemKeyId\<close>.
\<close>

record StorageMetadata =
  originalSize :: nat
  encryptedSize :: nat
  checksum :: hash_value
  itemCreatedAt :: jsdate
  itemExpiresAt :: "jsdate option"
  compressed :: bool
  itemKeyId :: "string option"

record SecureStorageItem =
  itemId :: string
  itemData :: EncryptionResult
  itemMetadata :: StorageMetadata

record SecureStorageOptions =
  optKeyId :: "string option"
  expirationTime :: "int option"
  compressionEnabled :: "bool option"
  integrityCheck :: "bool option"

definition no_options :: SecureStorageOptions where
  \<comment> \<open>the default \<^verbatim>\<open>{}\<close>\<close>
  "no_options = \<lparr>optKeyId = None, expirationTime = None, compressionEnabled = None,
                  integrityCheck = None\<rparr>"

text \<open>
  \<^verbatim>\<open>JSON.stringify\<close> and \<^verbatim>\<open>JSON.parse\<close> on the payload, whose type the sources leave open
  (\<^verbatim>\<open>any\<close>). \<^verbatim>\<open>JSON.stringify\<close> gives a text, raises (a cyclic object, a \<^verbatim>\<open>BigInt\<close>) or
  returns \<^verbatim>\<open>undefined\<close> (for \<^verbatim>\<open>undefined\<close>, a function or a symbol); \<open>parse\<close> is \<open>None\<close> where
  \<^verbatim>\<open>JSON.parse\<close> raises.
\<close>

datatype stringified = Text string | Raised | Undefined

record 'd json_codec =
  stringify :: "'d \<Rightarrow> stringified"
  parse :: "string \<Rightarrow> 'd option"

text \<open>The state: the entries of \<^verbatim>\<open>localStorage\<close> by their full key, and the random
  source. An entry is the item as \<^verbatim>\<open>JSON.parse\<close> gives it back. The security log is left
  out; \<^verbatim>\<open>listKeys\<close>, \<^verbatim>\<open>getMetadata\<close>, \<^verbatim>\<open>cleanupExpired\<close>, \<^verbatim>\<open>updatePassword\<close>,
  \<^verbatim>\<open>exportData\<close> and \<^verbatim>\<open>importData\<close> are not modelled.\<close>

record SecureStorage =
  items :: "string \<rightharpoonup> SecureStorageItem"
  srand :: rng

definition json_item :: "SecureStorageItem \<Rightarrow> SecureStorageItem" where
  \<comment> \<open>an item after \<^verbatim>\<open>JSON.stringify\<close> and \<^verbatim>\<open>JSON.parse\<close>\<close>
  "json_item item =
     item\<lparr>itemMetadata :=
       (itemMetadata item)\<lparr>checksum := json_hash (checksum (itemMetadata item)),
                             itemCreatedAt := json_date (itemCreatedAt (itemMetadata item)),
                             itemExpiresAt := map_option json_date (itemExpiresAt (itemMetadata item))\<rparr>\<rparr>"

definition validatePassword :: "string \<Rightarrow> error + unit" where
  "validatePassword password =
     (if password = [] \<or> length password < 8 then Inl PasswordTooShort else Inr ())"

definition saveToStorage :: "string \<Rightarrow> SecureStorageItem \<Rightarrow> SecureStorage \<Rightarrow> SecureStorage" where
  "saveToStorage key storageItem st = st\<lparr>items := (items st)(fullKey key \<mapsto> json_item storageItem)\<rparr>"

definition loadFromStorage :: "string \<Rightarrow> SecureStorage \<Rightarrow> SecureStorageItem option" where
  "loadFromStorage key st = items st (fullKey key)"

definition compressData :: "runtime \<Rightarrow> string \<Rightarrow> error + string" where
  "compressData L data = (case btoa L data of None \<Rightarrow> Inl CompressionFailure | Some c \<Rightarrow> Inr c)"

definition decompressData :: "runtime \<Rightarrow> string \<Rightarrow> error + string" where
  "decompressData L data = (case atob L data of None \<Rightarrow> Inl DecompressionFailure | Some c \<Rightarrow> Inr c)"

text \<open>
  \<^verbatim>\<open>store\<close> on a payload that \<^verbatim>\<open>JSON.stringify\<close> turns into \<^verbatim>\<open>undefined\<close>. \<^verbatim>\<open>btoa\<close> reads
  \<^verbatim>\<open>undefined\<close> as the text \<^verbatim>\<open>undefined\<close>. The hash of \<^verbatim>\<open>undefined\<close> raises: in the class
  \<open>Direct\<close> at once; in the class \<open>Bridge\<close> inside a promise that nobody awaits, so the call
  goes on to \<^verbatim>\<open>encryptText\<close>, which refuses \<^verbatim>\<open>undefined\<close> as it refuses the empty text, and
  after an encryption that went through to \<^verbatim>\<open>serializedData.length\<close>, which raises.
\<close>

definition store_undefined ::
  "engine \<Rightarrow> runtime \<Rightarrow> string \<Rightarrow> SecureStorageOptions \<Rightarrow> SecureStorage
     \<Rightarrow> (error + unit) \<times> SecureStorage"
where
  "store_undefined E L password options st =
     (case (if compressionEnabled options = Some True then map_sum id Some (compressData L ''undefined'')
            else Inr None) of
        Inl e \<Rightarrow> (Inl e, st)
      | Inr processedData \<Rightarrow>
          (case E of
             Direct \<Rightarrow> (Inl HashFailure, st)
           | Bridge \<Rightarrow>
               (let (enc, tape') =
                      encryptText L DEFAULT_CONFIG (case processedData of None \<Rightarrow> [] | Some t \<Rightarrow> t)
                        password (srand st);
                    st1 = st\<lparr>srand := tape'\<rparr>
                in case enc of
                     Inl e \<Rightarrow> (Inl e, st1)
                   | Inr encryptionResult \<Rightarrow> (Inl TypeError, st1))))"

definition store ::
  "engine \<Rightarrow> runtime \<Rightarrow> 'd json_codec \<Rightarrow> string \<Rightarrow> 'd \<Rightarrow> string \<Rightarrow> SecureStorageOptions \<Rightarrow> int \<Rightarrow> SecureStorage
     \<Rightarrow> (error + unit) \<times> SecureStorage"
where
  \<comment> \<open>\<open>now\<close> is the reading of the clock for \<^verbatim>\<open>createdAt\<close> and for \<^verbatim>\<open>expiresAt\<close>, which
      the same object literal takes\<close>
  "store E L J key data password options now st =
     (case validateKey key of
        Inl e \<Rightarrow> (Inl e, st)
      | Inr u \<Rightarrow>
     (case validatePassword password of
        Inl e \<Rightarrow> (Inl e, st)
      | Inr u \<Rightarrow>
     (case stringify J data of
        Raised \<Rightarrow> (Inl SerializationFailure, st)
      | Undefined \<Rightarrow> store_undefined E L password options st
      | Text serializedData \<Rightarrow>
     (case (if compressionEnabled options = Some True then compressData L serializedData
            else Inr serializedData) of
        Inl e \<Rightarrow> (Inl e, st)
      | Inr processedData \<Rightarrow>
          (let sum = hash_unawaited E L serializedData;
               (enc, tape') = encryptText L DEFAULT_CONFIG processedData password (srand st);
               st1 = st\<lparr>srand := tape'\<rparr>
           in case enc of
                Inl e \<Rightarrow> (Inl e, st1)
              | Inr encryptionResult \<Rightarrow>
                  (let storageItem =
                         \<lparr>itemId = key, itemData = encryptionResult,
                          itemMetadata =
                            \<lparr>originalSize = length serializedData,
                             encryptedSize = length (encryptedData encryptionResult),
                             checksum = sum,
                             itemCreatedAt = DateObj now,
                             itemExpiresAt =
                               (case expirationTime options of
                                  None \<Rightarrow> None
                                | Some ms \<Rightarrow> if ms = 0 then None else Some (new_Date (now + ms))),
                             compressed = (compressionEnabled options = Some True),
                             itemKeyId = optKeyId options\<rparr>\<rparr>
                   in (Inr (), saveToStorage key storageItem st1)))))))"

definition remove :: "string \<Rightarrow> SecureStorage \<Rightarrow> (error + unit) \<times> SecureStorage" where
  "remove key st =
     (case validateKey key of
        Inl e \<Rightarrow> (Inl e, st)
      | Inr u \<Rightarrow> (Inr (), st\<lparr>items := (items st)(fullKey key := None)\<rparr>))"

definition retrieve ::
  "engine \<Rightarrow> runtime \<Rightarrow> 'd json_codec \<Rightarrow> string \<Rightarrow> string \<Rightarrow> int \<Rightarrow> SecureStorage
     \<Rightarrow> (error + 'd) \<times> SecureStorage"
where
  "retrieve E L J key password now st =
     (case validateKey key of
        Inl e \<Rightarrow> (Inl e, st)
      | Inr u \<Rightarrow>
     (case validatePassword password of
        Inl e \<Rightarrow> (Inl e, st)
      | Inr u \<Rightarrow>
     (case loadFromStorage key st of
        None \<Rightarrow> (Inl NotFound, st)
      | Some storageItem \<Rightarrow>
          if (case itemExpiresAt (itemMetadata storageItem) of
                None \<Rightarrow> False
              | Some d \<Rightarrow> truthy d \<and> date_lt d now)
          then (case remove key st of
                  (Inl e, st1) \<Rightarrow> (Inl e, st1)
                | (Inr u, st1) \<Rightarrow> (Inl Expired, st1))
          else
            (case decryptText L DEFAULT_CONFIG (itemData storageItem) password of
               Inl e \<Rightarrow> (Inl e, st)
             | Inr decryptedData \<Rightarrow>
            (case (if compressed (itemMetadata storageItem) then decompressData L decryptedData
                   else Inr decryptedData) of
               Inl e \<Rightarrow> (Inl e, st)
             | Inr processedData \<Rightarrow>
                 if strict_neq (hash_unawaited E L processedData) (checksum (itemMetadata storageItem))
                 then (Inl IntegrityFailure, st)
                 else (case parse J processedData of
                         None \<Rightarrow> (Inl ParseFailure, st)
                       | Some data \<Rightarrow> (Inr data, st)))))))"

section \<open>FileEncryption\<close>

text \<open>
  A \<^verbatim>\<open>File\<close> of the browser: its name, size in bytes and MIME type, and the text that
  \<^verbatim>\<open>FileReader.readAsText\<close> gives (\<open>None\<close> when the reader fails); a file is always
  there, so the check \<^verbatim>\<open>!file\<close> has no case. Both engines give \<^verbatim>\<open>FileEncryption\<close> the
  same digest, since it awaits \<^verbatim>\<open>generateSecureHash\<close>. The fields \<^verbatim>\<open>metadata\<close>,
  \<^verbatim>\<open>originalSize\<close>, \<^verbatim>\<open>encryptedSize\<close> and \<^verbatim>\<open>checksum\<close> of \<^verbatim>\<open>FileEncryptionResult\<close> carry
  the prefix \<open>file\<close> here.
\<close>

record File =
  fileName :: string
  fileSize :: int
  fileType :: string
  fileText :: "string option"

record FileMetadata =
  originalName :: string
  fileOriginalSize :: int
  fileEncryptedSize :: nat
  mimeType :: string
  fileChecksum :: string

record FileEncryptionResult =
  encryptedContent :: string
  fileMetadata :: FileMetadata
  encryption :: EncryptionResult

text \<open>
  The security log of a \<^verbatim>\<open>FileEncryption\<close> object: the event, the status and the details
  of each entry (the time stamp and the session id are left out), the last 1000 entries
  kept. The text \<^verbatim>\<open>name: message\<close> of a batch error is the pair of the name and the error.
\<close>

datatype log_status = Success | Error | Warning | Failure

datatype log_details =
    FileDone string int string
  | FileFailed string error
  | BatchDone nat nat
  | BatchIncomplete nat nat nat "(string \<times> error) list"

record log_entry =
  event :: string
  status :: log_status
  details :: log_details

definition logEvent :: "string \<Rightarrow> log_status \<Rightarrow> log_details \<Rightarrow> log_entry list \<Rightarrow> log_entry list" where
  "logEvent ev st ds logs =
     (let logs' = logs @ [\<lparr>event = ev, status = st, details = ds\<rparr>]
      in if length logs' > 1000 then drop (length logs' - 1000) logs' else logs')"

record FileEncryption =
  securityLog :: "log_entry list"
  frand :: rng

definition validateFile :: "File \<Rightarrow> error + unit" where
  "validateFile file =
     (if fileSize file > 50 * 1024 * 1024 then Inl FileTooLarge
      else if fileType file \<in> set [''application/x-executable'', ''application/x-msdownload'',
                                     ''application/x-msdos-program'']
      then Inl FileTypeNotAllowed
      else Inr ())"

definition readFileAsText :: "File \<Rightarrow> error + string" where
  "readFileAsText file = (case fileText file of None \<Rightarrow> Inl FileReadFailure | Some s \<Rightarrow> Inr s)"

definition encryptFile ::
  "runtime \<Rightarrow> File \<Rightarrow> string \<Rightarrow> FileEncryption \<Rightarrow> (error + FileEncryptionResult) \<times> FileEncryption"
where
  "encryptFile L file password fe =
     (let (outcome, tape') =
            (case validateFile file of
               Inl e \<Rightarrow> (Inl e, frand fe)
             | Inr u \<Rightarrow>
            (case validatePassword password of
               Inl e \<Rightarrow> (Inl e, frand fe)
             | Inr u \<Rightarrow>
            (case readFileAsText file of
               Inl e \<Rightarrow> (Inl e, frand fe)
             | Inr fileContent \<Rightarrow>
                 (let sum = generateSecureHash L fileContent;
                      (enc, tape1) = encryptText L DEFAULT_CONFIG fileContent password (frand fe)
                  in case enc of
                       Inl e \<Rightarrow> (Inl e, tape1)
                     | Inr encryptionResult \<Rightarrow>
                         (Inr \<lparr>encryptedContent = encryptedData encryptionResult,
                               fileMetadata =
                                 \<lparr>originalName = fileName file,
                                  fileOriginalSize = fileSize file,
                                  fileEncryptedSize = length (encryptedData encryptionResult),
                                  mimeType = fileType file,
                                  fileChecksum = sum\<rparr>,
                               encryption = encryptionResult\<rparr>, tape1)))))
      in case outcome of
           Inl e \<Rightarrow>
             (Inl e, \<lparr>securityLog = logEvent ''FILE_ENCRYPTION'' Error (FileFailed (fileName file) e)
                                       (securityLog fe),
                      frand = tape'\<rparr>)
         | Inr result \<Rightarrow>
             (Inr result,
              \<lparr>securityLog = logEvent ''FILE_ENCRYPTION'' Success
                               (FileDone (fileName file) (fileSize file) (fileType file))
                               (securityLog fe),
               frand = tape'\<rparr>))"

fun batch_loop ::
  "runtime \<Rightarrow> string \<Rightarrow> File list \<Rightarrow> FileEncryptionResult list \<Rightarrow> (string \<times> error) list
     \<Rightarrow> FileEncryption \<Rightarrow> FileEncryptionResult list \<times> (string \<times> error) list \<times> FileEncryption"
where
  "batch_loop L password [] results errors fe = (results, errors, fe)"
| "batch_loop L password (file # files) results errors fe =
     (case encryptFile L file password fe of
        (Inr result, fe') \<Rightarrow> batch_loop L password files (results @ [result]) errors fe'
      | (Inl e, fe') \<Rightarrow> batch_loop L password files results (errors @ [(fileName file, e)]) fe')"

definition encryptMultipleFiles ::
  "runtime \<Rightarrow> File list \<Rightarrow> string \<Rightarrow> FileEncryption \<Rightarrow> FileEncryptionResult list \<times> FileEncryption"
where
  "encryptMultipleFiles L files password fe =
     (let (results, errors, fe') = batch_loop L password files [] [] fe
      in if length errors > 0
         then (results,
               fe'\<lparr>securityLog := logEvent ''BATCH_FILE_ENCRYPTION'' Warning
                  (BatchIncomplete (length files) (length results) (length errors) errors)
                  (securityLog fe')\<rparr>)
         else (results,
               fe'\<lparr>securityLog := logEvent ''BATCH_FILE_ENCRYPTION'' Success
                  (BatchDone (length files) (length results))
                  (securityLog fe')\<rparr>))"

text \<open>
  The outcome of every file of a batch, in the order of the files: the second file is
  encrypted in the state the first one left, and so on. This is the reading of "each file
  is processed on its own" that the loop is compared with.
\<close>

fun outcomes ::
  "runtime \<Rightarrow> string \<Rightarrow> File list \<Rightarrow> FileEncryption \<Rightarrow> (error + FileEncryptionResult) list"
where
  "outcomes L password [] fe = []"
| "outcomes L password (file # files) fe =
     (case encryptFile L file password fe of
        (outcome, fe') \<Rightarrow> outcome # outcomes L password files fe')"

definition successes :: "(error + 'a) list \<Rightarrow> 'a list" where
  "successes rs = concat (map (\<lambda>r. case r of Inl e \<Rightarrow> [] | Inr x \<Rightarrow> [x]) rs)"

definition failures :: "File list \<Rightarrow> (error + 'a) list \<Rightarrow> (string \<times> error) list" where
  "failures files rs =
     concat (map (\<lambda>(file, r). case r of Inl e \<Rightarrow> [(fileName file, e)] | Inr x \<Rightarrow> []) (zip files rs))"

section \<open>A reference instance of the primitives\<close>

text \<open>
  Concrete runs need concrete primitives. The reference instance keeps the interface of
  the real ones and is as simple as the contract \<open>aead_ok\<close> allows: the derived key is the
  password followed by the salt, cut to the key length; the ciphertext is the plaintext's
  bytes; the tag is the key behind a marker byte, so that decrypting under another key is
  refused; the digest is the hex text of the data; an encryption result is written as its
  four fields between colons; base64 text is the data behind a marker.
\<close>

definition byte_of_char :: "char \<Rightarrow> byte" where
  "byte_of_char c = word_of_nat (of_char c)"

definition char_of_byte :: "byte \<Rightarrow> char" where
  "char_of_byte b = char_of (unat b)"

fun split_colon :: "string \<Rightarrow> string list" where
  "split_colon [] = [[]]"
| "split_colon (c # cs) =
     (if c = CHR '':'' then [] # split_colon cs
      else (case split_colon cs of
              w # ws \<Rightarrow> (c # w) # ws
            | [] \<Rightarrow> [[c]]))"

definition ref_json_of_result :: "EncryptionResult \<Rightarrow> string" where
  "ref_json_of_result r =
     encryptedData r @ '':'' @ iv r @ '':'' @ salt r @ '':'' @ (case tag r of None \<Rightarrow> [] | Some t \<Rightarrow> t)"

definition ref_result_of_json :: "string \<Rightarrow> EncryptionResult option" where
  "ref_result_of_json s =
     (case split_colon s of
        [a, b, c, d] \<Rightarrow>
          Some \<lparr>encryptedData = a, iv = b, salt = c, tag = (if d = [] then None else Some d)\<rparr>
      | _ \<Rightarrow> None)"

definition ref_runtime :: runtime where
  "ref_runtime =
     \<lparr>scrypt = (\<lambda>password slt n. Some (take n (map byte_of_char password @ slt))),
      cipher = (\<lambda>alg key ivb pt. Some (map byte_of_char pt, 1 # key)),
      decipher = (\<lambda>alg key ivb tg ct.
         if alg = AES_256_GCM \<and> tg \<noteq> Some (1 # key) then None
         else Some (map char_of_byte ct)),
      sha256 = (\<lambda>data. to_hex (map byte_of_char data)),
      rsa = (\<lambda>size tape.
         case size of
           None \<Rightarrow> (None, tape)
         | Some n \<Rightarrow>
             (let (seed, tape') = randomBytes 2 tape
              in (Some \<lparr>publicKey = ''PUBLIC '' @ to_hex seed,
                        privateKey = ''PRIVATE '' @ to_hex seed\<rparr>, tape'))),
      json_of_result = ref_json_of_result,
      result_of_json = ref_result_of_json,
      btoa = (\<lambda>s. Some (''b64:'' @ s)),
      atob = (\<lambda>s. if take 4 s = ''b64:'' then Some (drop 4 s) else None)\<rparr>"

definition count_tape :: rng where
  "count_tape = (\<lambda>i. word_of_nat i)"

section \<open>A session on the reference instance\<close>

text \<open>
  A first run of the application creates a key manager on an empty \<^verbatim>\<open>localStorage\<close>,
  initializes it, and with the clock at 1000 generates an RSA key pair that expires after
  one day. The application is then started again: the new key manager loads what the first one
  saved.
\<close>

definition first_run :: KeyManager where
  "first_run = snd (initialize ref_runtime ''Str0ng!Pass1234'' (new_KeyManager None count_tape))"

definition with_pair :: KeyManager where
  "with_pair =
     snd (generateAsymmetricKeyPair ref_runtime ''signing-key'' ''signing'' ''admin'' (Some 2048)
            (Some 1) 1000 ''abc123xyz'' 1000 1000 first_run)"

definition saved_keys :: "(string \<times> StoredKey) list" where
  \<comment> \<open>what the first run left in \<^verbatim>\<open>localStorage\<close>\<close>
  "saved_keys =
     [(''key_1000_abc123xyz'',
       \<lparr>keyId = ''key_1000_abc123xyz'', name = ''signing-key'',
        keyType = Asymmetric, keyAlgorithm = ''RSA-2048'',
        keyData =
          ''505249564154452030303031:22232425262728292a2b2c2d2e2f3031:02030405060708090a0b0c0d0e0f101112131415161718191a1b1c1d1e1f2021:01537472306e6721506173733132333402030405060708090a0b0c0d0e0f101112'',
        keyPublic = Some ''PUBLIC 0001'', createdAt = DateIso 1000,
        expiresAt = Some (DateIso 86401000),
        metadata =
          \<lparr>purpose = ''signing'', owner = ''admin'',
           permissions = [''sign'', ''decrypt'']\<rparr>\<rparr>)]"

definition session_keys :: "(string \<times> StoredKey) list" where
  \<comment> \<open>the map of the first run after the generation\<close>
  "session_keys =
     [(''key_1000_abc123xyz'',
       \<lparr>keyId = ''key_1000_abc123xyz'', name = ''signing-key'',
        keyType = Asymmetric, keyAlgorithm = ''RSA-2048'',
        keyData =
          ''505249564154452030303031:22232425262728292a2b2c2d2e2f3031:02030405060708090a0b0c0d0e0f101112131415161718191a1b1c1d1e1f2021:01537472306e6721506173733132333402030405060708090a0b0c0d0e0f101112'',
        keyPublic = Some ''PUBLIC 0001'', createdAt = DateObj 1000,
        expiresAt = Some (DateObj 86401000),
        metadata =
          \<lparr>purpose = ''signing'', owner = ''admin'',
           permissions = [''sign'', ''decrypt'']\<rparr>\<rparr>)]"

definition session :: KeyManager where
  \<comment> \<open>the first run after the generation; its tape is the one of the first run without
      the 50 bytes drawn so far\<close>
  "session =
     \<lparr>keys = session_keys, masterPassword = Some ''Str0ng!Pass1234'',
      persisted = Some saved_keys, rand = (\<lambda>i. count_tape (i + 50))\<rparr>"

text \<open>
  The same first run with the class \<open>Direct\<close> in place of \<open>Bridge\<close>: with the clock at
  1000, 1200 and 1201 it generates a symmetric key that expires after ten days.
\<close>

definition with_symmetric :: KeyManager where
  "with_symmetric =
     snd (generateSymmetricKey Direct ref_runtime ''invoice-key'' ''billing'' ''admin'' (Some 10)
            1000 ''k3y000001'' 1200 1201 first_run)"

definition direct_keys :: "jsdate \<Rightarrow> jsdate \<Rightarrow> (string \<times> StoredKey) list" where
  \<comment> \<open>the map of that run after the generation, for the two dates of the key\<close>
  "direct_keys created expires =
     [(''key_1000_k3y000001'',
       \<lparr>keyId = ''key_1000_k3y000001'', name = ''invoice-key'',
        keyType = Symmetric, keyAlgorithm = ''AES-256'',
        keyData =
          ''30303031303230333034303530363037303830393061306230633064306530663130313131323133313431353136313731383139316131623163316431653166:404142434445464748494a4b4c4d4e4f:202122232425262728292a2b2c2d2e2f303132333435363738393a3b3c3d3e3f:01537472306e67215061737331323334202122232425262728292a2b2c2d2e2f30'',
        keyPublic = None, createdAt = created, expiresAt = Some expires,
        metadata =
          \<lparr>purpose = ''billing'', owner = ''admin'',
           permissions = [''encrypt'', ''decrypt'']\<rparr>\<rparr>)]"

definition direct_session :: KeyManager where
  \<comment> \<open>that run after the generation; 80 bytes of the tape are drawn\<close>
  "direct_session =
     \<lparr>keys = direct_keys (DateObj 1201) (DateObj 864001200),
      masterPassword = Some ''Str0ng!Pass1234'',
      persisted = Some (direct_keys (DateIso 1201) (DateIso 864001200)),
      rand = (\<lambda>i. count_tape (i + 80))\<rparr>"

definition restarted :: KeyManager where
  "restarted = new_KeyManager (Some saved_keys) count_tape"

definition zero_tape :: rng where
  "zero_tape = (\<lambda>i. 0)"

section \<open>A payload and an empty storage\<close>

text \<open>A codec for payloads that are whole numbers: \<^verbatim>\<open>JSON.stringify\<close> writes the decimal
  digits, \<^verbatim>\<open>JSON.parse\<close> reads them back and refuses anything else.\<close>

definition parse_number :: "string \<Rightarrow> int option" where
  "parse_number s =
     (case s of
        [] \<Rightarrow> None
      | c # cs \<Rightarrow>
          if c = CHR ''-'' then
            (if cs \<noteq> [] \<and> list_all (\<lambda>x. digit_val x \<noteq> None) cs
             then map_option (\<lambda>n. - int n) (parse_digits None cs) else None)
          else if list_all (\<lambda>x. digit_val x \<noteq> None) s
          then map_option int (parse_digits None s) else None)"

definition number_codec :: "int json_codec" where
  "number_codec = \<lparr>stringify = (\<lambda>n. Text (dec_int n)), parse = parse_number\<rparr>"

definition empty_storage :: SecureStorage where
  "empty_storage = \<lparr>items = Map.empty, srand = count_tape\<rparr>"

definition timed_options :: SecureStorageOptions where
  \<comment> \<open>compression, and one minute to live\<close>
  "timed_options = \<lparr>optKeyId = None, expirationTime = Some 60000, compressionEnabled = Some True,
                     integrityCheck = None\<rparr>"

section \<open>A batch of files\<close>

definition new_FileEncryption :: FileEncryption where
  "new_FileEncryption = \<lparr>securityLog = [], frand = count_tape\<rparr>"

definition text_file :: "string \<Rightarrow> string \<Rightarrow> File" where
  "text_file nm content =
     \<lparr>fileName = nm, fileSize = int (length content), fileType = ''text/plain'',
      fileText = Some content\<rparr>"

definition huge_file :: File where
  \<comment> \<open>60 MB, over the limit of 50 MB\<close>
  "huge_file = \<lparr>fileName = ''huge.bin'', fileSize = 60 * 1024 * 1024,
                 fileType = ''application/octet-stream'', fileText = Some ''...''\<rparr>"

definition three_files :: "File list" where
  "three_files = [text_file ''a.txt'' ''alpha'', huge_file, text_file ''c.txt'' ''gamma'']"

section \<open>Proofs\<close>

lemma hexval_hexdigit_all: "list_all (\<lambda>n. hexval (hexdigit n) = Some n) [0..<16]"
  by code_simp

lemma hexval_hexdigit: "n < 16 \<Longrightarrow> hexval (hexdigit n) = Some n"
  using hexval_hexdigit_all by (simp add: list_all_iff)

lemma from_hex_hex_of_byte: "from_hex (hex_of_byte b @ rest) = b # from_hex rest"
proof -
  have "unat b < 256" using unsigned_less [of b, where ?'a = nat] by simp
  then have d: "unat b div 16 < 16" by simp
  have m: "unat b mod 16 < 16" by simp
  have "(word_of_nat (16 * (unat b div 16) + unat b mod 16) :: byte) = b"
    by simp
  with d m show ?thesis
    by (simp add: hex_of_byte_def hexval_hexdigit)
qed

lemma from_hex_to_hex: "from_hex (to_hex bs) = bs"
  by (induction bs) (simp_all add: to_hex_def from_hex_hex_of_byte)

lemma to_hex_inj: "to_hex a = to_hex b \<Longrightarrow> a = b"
  by (metis from_hex_to_hex)

lemma to_hex_empty_iff: "to_hex bs = [] \<longleftrightarrow> bs = []"
  by (cases bs) (simp_all add: to_hex_def hex_of_byte_def)

lemma to_hex_example: "to_hex [0x3a, 0xff, 0x00] = ''3aff00''"
  by (simp add: to_hex_def hex_of_byte_def hexdigit_def)

lemma from_hex_example: "from_hex ''3AfF0z11'' = [0x3a, 0xff]"
  by (simp add: hexval_def)

section \<open>CryptoEngine: round trip\<close>



lemma encryptText_success:
  assumes "encryptText L cfg t p tape = (Inr r, tape')"
  obtains key ct tg where
    "t \<noteq> []" "p \<noteq> []"
    "scrypt L p (fst (randomBytes (saltLength cfg) tape)) (keyLength cfg) = Some key"
    "cipher L (algorithm cfg) key
       (fst (randomBytes (ivLength cfg) (snd (randomBytes (saltLength cfg) tape)))) t = Some (ct, tg)"
    "r = \<lparr>encryptedData = to_hex ct,
          iv = to_hex (fst (randomBytes (ivLength cfg) (snd (randomBytes (saltLength cfg) tape)))),
          salt = to_hex (fst (randomBytes (saltLength cfg) tape)),
          tag = (if algorithm cfg = AES_256_GCM then Some (to_hex tg) else None)\<rparr>"
    "tape' = snd (randomBytes (ivLength cfg) (snd (randomBytes (saltLength cfg) tape)))"
  using assms
  by (auto simp: encryptText_def deriveKey_def Let_def split_beta
           split: if_splits option.splits sum.splits prod.splits)

lemma decryptText_encryptText:
  assumes lib: "aead_ok L"
    and t: "t \<noteq> []" and p: "p \<noteq> []"
    and enc: "encryptText L cfg t p tape = (Inr r, tape')"
  shows "decryptText L cfg r p = Inr t"
proof -
  from enc obtain key ct tg where
    k: "scrypt L p (fst (randomBytes (saltLength cfg) tape)) (keyLength cfg) = Some key" and
    c: "cipher L (algorithm cfg) key
          (fst (randomBytes (ivLength cfg) (snd (randomBytes (saltLength cfg) tape)))) t = Some (ct, tg)" and
    r: "r = \<lparr>encryptedData = to_hex ct,
          iv = to_hex (fst (randomBytes (ivLength cfg) (snd (randomBytes (saltLength cfg) tape)))),
          salt = to_hex (fst (randomBytes (saltLength cfg) tape)),
          tag = (if algorithm cfg = AES_256_GCM then Some (to_hex tg) else None)\<rparr>"
    by (rule encryptText_success)
  from lib c have
    d: "decipher L (algorithm cfg) key
          (fst (randomBytes (ivLength cfg) (snd (randomBytes (saltLength cfg) tape))))
          (if algorithm cfg = AES_256_GCM then Some tg else None) ct = Some t" and
    ne: "ct \<noteq> []" and tne: "algorithm cfg = AES_256_GCM \<longrightarrow> tg \<noteq> []"
    using t unfolding aead_ok_def by blast+
  from ne have hne: "to_hex ct \<noteq> []" by (simp add: to_hex_empty_iff)
  show ?thesis
  proof (cases "algorithm cfg = AES_256_GCM")
    case True
    with hne p k d tne r show ?thesis
      by (simp add: decryptText_def deriveKey_def from_hex_to_hex to_hex_empty_iff)
  next
    case False
    with hne p k d r show ?thesis
      by (simp add: decryptText_def deriveKey_def from_hex_to_hex)
  qed
qed



section \<open>Secure storage: \<^verbatim>\<open>exists\<close>\<close>

lemma is_space_not_key_char: "is_space c \<Longrightarrow> \<not> key_char c"
  by (auto simp: is_space_def key_char_def Let_def)

lemma trim_empty_not_key_chars:
  assumes "key \<noteq> []" and "trim_empty key"
  shows "\<not> list_all key_char key"
proof (cases key)
  case Nil
  with assms show ?thesis by simp
next
  case (Cons c cs)
  with assms have "is_space c" by (simp add: trim_empty_def)
  then have "\<not> key_char c" by (rule is_space_not_key_char)
  with Cons show ?thesis by simp
qed

lemma validateKey_ok_iff:
  "validateKey key = Inr () \<longleftrightarrow> key \<noteq> [] \<and> length key \<le> 100 \<and> list_all key_char key"
  using trim_empty_not_key_chars [of key]
  by (auto simp: validateKey_def)

text \<open>
  C10. \<^verbatim>\<open>SecureStorage.exists(key)\<close> never raises: it returns a boolean for every key.
  The boolean is false for a key that fails validation (empty, longer than 100 characters,
  or with a character outside letters, digits, underscore and dash), and otherwise tells
  whether \<^verbatim>\<open>localStorage\<close> holds an entry under the prefixed key.
\<close>

theorem exists_total:
  "exists_item ls key =
     Inr (key \<noteq> [] \<and> length key \<le> 100 \<and> list_all key_char key \<and> ls (fullKey key) \<noteq> None)"
proof (cases "validateKey key")
  case (Inl e)
  then have "\<not> (key \<noteq> [] \<and> length key \<le> 100 \<and> list_all key_char key)"
    using validateKey_ok_iff [of key] by auto
  with Inl show ?thesis by (auto simp: exists_item_def)
next
  case (Inr u)
  then have "key \<noteq> [] \<and> length key \<le> 100 \<and> list_all key_char key"
    using validateKey_ok_iff [of key] by simp
  with Inr show ?thesis by (simp add: exists_item_def)
qed

theorem exists_total_witness:
  "exists_item [fullKey ''backup_2024'' \<mapsto> (0::nat)] ''backup_2024'' = Inr True
   \<and> exists_item [fullKey ''backup_2024'' \<mapsto> (0::nat)] ''bad key'' = Inr False
   \<and> exists_item [fullKey ''backup_2024'' \<mapsto> (0::nat)] [] = Inr False"
  using exists_total [of "[fullKey ''backup_2024'' \<mapsto> (0::nat)]" "''backup_2024''"]
    exists_total [of "[fullKey ''backup_2024'' \<mapsto> (0::nat)]" "''bad key''"]
    exists_total [of "[fullKey ''backup_2024'' \<mapsto> (0::nat)]" "[]"]
  by (simp add: key_char_def fullKey_def)

section \<open>KeyManager: initialization\<close>

text \<open>The states \<open>session\<close> and \<open>direct_session\<close> are the first run after its generation,
  with either class.\<close>

lemma first_run_state:
  "(let km = with_pair in
      keys km = keys session \<and> masterPassword km = masterPassword session
      \<and> persisted km = persisted session
      \<and> map (rand km) [0..<4] = map (rand session) [0..<4])"
  by code_simp

lemma direct_run_state:
  "(let km = with_symmetric in
      keys km = keys direct_session \<and> masterPassword km = masterPassword direct_session
      \<and> persisted km = persisted direct_session
      \<and> map (rand km) [0..<4] = map (rand direct_session) [0..<4])"
  by code_simp

lemma ensureInitialized_None:
  "masterPassword km = None \<Longrightarrow> ensureInitialized km = Inl NotInitialized"
  by (simp add: ensureInitialized_def)

lemma ensureInitialized_Some:
  "masterPassword km = Some pw \<Longrightarrow> pw \<noteq> [] \<Longrightarrow> ensureInitialized km = Inr pw"
  by (simp add: ensureInitialized_def)

lemma validateMasterPassword_nonempty: "validateMasterPassword pw = Inr () \<Longrightarrow> pw \<noteq> []"
  by (auto simp: validateMasterPassword_def split: if_splits)

lemma verifyMasterPassword_error:
  "verifyMasterPassword L km = Inl e \<Longrightarrow> e = InvalidMasterPassword"
  by (auto simp: verifyMasterPassword_def split: list.splits option.splits sum.splits)

text \<open>
  What \<^verbatim>\<open>initialize\<close> leaves behind when the probe fails: the password was assigned before
  the probe and is not taken back, so the manager passes \<^verbatim>\<open>ensureInitialized\<close> from then on.
\<close>

lemma initialize_probe_failure:
  assumes "validateMasterPassword pw = Inr ()"
    and "verifyMasterPassword L (km\<lparr>masterPassword := Some pw\<rparr>) = Inl e"
  shows "initialize L pw km = (Inl InvalidMasterPassword, km\<lparr>masterPassword := Some pw\<rparr>)"
    and "ensureInitialized (snd (initialize L pw km)) = Inr pw"
  using assms verifyMasterPassword_error [OF assms(2)] validateMasterPassword_nonempty [OF assms(1)]
  by (simp_all add: initialize_def ensureInitialized_def)

text \<open>
  C3, at a failing input. The restarted manager holds a key encrypted under
  \<^verbatim>\<open>Str0ng!Pass1234\<close>. \<^verbatim>\<open>initialize\<close> with another password that meets the policy fails
  with \<open>InvalidMasterPassword\<close>, and the manager is then initialized with the wrong
  password: \<^verbatim>\<open>deleteKey\<close> and \<^verbatim>\<open>exportKeys\<close> go through instead of failing with
  \<open>NotInitialized\<close>.
\<close>

theorem initialize_wrong_password_run:
  "fst (initialize ref_runtime ''Wr0ng!Password99'' restarted) = Inl InvalidMasterPassword
   \<and> masterPassword (snd (initialize ref_runtime ''Wr0ng!Password99'' restarted))
       = Some ''Wr0ng!Password99''
   \<and> fst (deleteKey ''key_1000_abc123xyz''
            (snd (initialize ref_runtime ''Wr0ng!Password99'' restarted))) = Inr ()"
  by code_simp

section \<open>KeyManager: operations on an uninitialized manager\<close>

text \<open>
  C4 as stated fails: \<^verbatim>\<open>getPublicKey\<close>, \<^verbatim>\<open>listKeys\<close> and \<^verbatim>\<open>getExpiringKeys\<close> do not call
  \<^verbatim>\<open>ensureInitialized\<close>. On the restarted manager, which has no master password, the first
  returns the public key of the stored pair and the second lists the pair.
\<close>

theorem uninitialized_reads_succeed:
  "masterPassword restarted = None
   \<and> getPublicKey ''key_1000_abc123xyz'' restarted = Inr ''PUBLIC 0001''
   \<and> map infoId (listKeys restarted) = [''key_1000_abc123xyz'']"
  by code_simp

text \<open>
  C4, amended. The operations that call \<^verbatim>\<open>ensureInitialized\<close>, which are
  \<^verbatim>\<open>generateSymmetricKey\<close>, \<^verbatim>\<open>generateAsymmetricKeyPair\<close>, \<^verbatim>\<open>getKey\<close>, \<^verbatim>\<open>deleteKey\<close>,
  \<^verbatim>\<open>rotateKey\<close>, \<^verbatim>\<open>exportKeys\<close> and \<^verbatim>\<open>importKeys\<close>, fail with \<open>NotInitialized\<close> on a manager
  without master password and leave it as it was.
\<close>

theorem uninitialized_operations_fail:
  assumes "masterPassword km = None"
  shows "generateSymmetricKey E L nm pu ow days idTime rnd expiryTime createdTime km
           = (Inl NotInitialized, km)
       \<and> generateAsymmetricKeyPair L nm pu ow sz days idTime rnd expiryTime createdTime km
           = (Inl NotInitialized, km)
       \<and> getKey L kid now km = Inl NotInitialized
       \<and> deleteKey kid km = (Inl NotInitialized, km)
       \<and> rotateKey E L kid now idTime rnd expiryTime createdTime km = (Inl NotInitialized, km)
       \<and> exportKeys now km = Inl NotInitialized
       \<and> importKeys doc km = (Inl NotInitialized, km)"
  using ensureInitialized_None [OF assms]
  by (simp add: generateSymmetricKey_def generateAsymmetricKeyPair_def getKey_def deleteKey_def
        rotateKey_def exportKeys_def importKeys_def)

theorem uninitialized_operations_fail_witness:
  "generateSymmetricKey Bridge ref_runtime ''n'' ''p'' ''o'' None 5 ''r'' 6 7 restarted
        = (Inl NotInitialized, restarted)
   \<and> generateAsymmetricKeyPair ref_runtime ''n'' ''p'' ''o'' (Some 2048) None 5 ''r'' 6 7 restarted
        = (Inl NotInitialized, restarted)
   \<and> getKey ref_runtime ''key_1000_abc123xyz'' 5 restarted = Inl NotInitialized
   \<and> deleteKey ''key_1000_abc123xyz'' restarted = (Inl NotInitialized, restarted)
   \<and> rotateKey Bridge ref_runtime ''key_1000_abc123xyz'' 5 5 ''r'' 6 7 restarted
        = (Inl NotInitialized, restarted)
   \<and> exportKeys 5 restarted = Inl NotInitialized
   \<and> importKeys Unparsable restarted = (Inl NotInitialized, restarted)"
proof -
  have "masterPassword restarted = None" by code_simp
  then show ?thesis by (rule uninitialized_operations_fail)
qed

section \<open>KeyManager: expiry\<close>

lemma decryptText_not_KeyExpired: "decryptText L cfg r pw \<noteq> Inl KeyExpired"
  by (auto simp: decryptText_def deriveKey_def Let_def split: option.splits sum.splits)

text \<open>
  For a key made in the running session, whose \<open>expiresAt\<close> is a \<^verbatim>\<open>Date\<close> object,
  \<^verbatim>\<open>getKey\<close> fails with \<open>KeyExpired\<close> exactly when the instant is strictly before now.
\<close>

lemma getKey_absent:
  "ensureInitialized km = Inr pw \<Longrightarrow> map_of (keys km) kid = None \<Longrightarrow> getKey L kid now km = Inl KeyNotFound"
  by (simp add: getKey_def)

lemma getKey_expired_iff_Date:
  assumes "ensureInitialized km = Inr pw" and "map_of (keys km) kid = Some k"
    and "expiresAt k = Some (DateObj t)"
  shows "getKey L kid now km = Inl KeyExpired \<longleftrightarrow> t < now"
  using assms decryptText_not_KeyExpired [of L DEFAULT_CONFIG _ pw]
  by (auto simp: getKey_def date_lt_def truthy_def split: option.splits)

lemma getKey_stored_text_never_expires:
  assumes "ensureInitialized km = Inr pw" and "map_of (keys km) kid = Some k"
    and "expiresAt k = Some (DateIso t)"
  shows "getKey L kid now km \<noteq> Inl KeyExpired"
  using assms decryptText_not_KeyExpired [of L DEFAULT_CONFIG _ pw]
  by (auto simp: getKey_def date_lt_def truthy_def split: option.splits)

text \<open>
  C5, at a failing input. The key pair of the session was made at instant 1000 with one
  day to live. In the session that made it, \<^verbatim>\<open>getKey\<close> two days later fails with
  \<open>KeyExpired\<close>. After a restart the same key, read back from \<^verbatim>\<open>localStorage\<close>, carries its
  expiry as text, and \<^verbatim>\<open>getKey\<close> at the same instant returns the key.
\<close>

theorem getKey_after_restart_run:
  "getKey ref_runtime ''key_1000_abc123xyz'' (1000 + 2 * day_ms) session = Inl KeyExpired
   \<and> map_option expiresAt (map_of (keys restarted) ''key_1000_abc123xyz'')
        = Some (Some (DateIso (1000 + day_ms)))
   \<and> getKey ref_runtime ''key_1000_abc123xyz'' (1000 + 2 * day_ms)
        (snd (initialize ref_runtime ''Str0ng!Pass1234'' restarted))
        = Inr ''PRIVATE 0001''"
  by code_simp

text \<open>
  C9, at a failing input, from the same defect: at instant 2000 the key pair expires
  within the next 30 days. \<^verbatim>\<open>getExpiringKeys(30)\<close> lists it in the session that made it
  and lists nothing after the restart.
\<close>

theorem getExpiringKeys_after_restart_run:
  "map keyId (getExpiringKeys 30 2000 session) = [''key_1000_abc123xyz'']
   \<and> getExpiringKeys 30 2000 (snd (initialize ref_runtime ''Str0ng!Pass1234'' restarted)) = []"
  by code_simp

text \<open>
  What \<^verbatim>\<open>getExpiringKeys\<close> returns in every state: the keys whose \<open>expiresAt\<close> is a
  \<^verbatim>\<open>Date\<close> object strictly after now and at most \<open>daysAhead\<close> days ahead, in the order of
  the map, provided that the cutoff is in the range of \<^verbatim>\<open>Date\<close>. A key whose expiry is
  held as text is never among them.
\<close>

lemma getExpiringKeys_eq:
  "getExpiringKeys daysAhead now km =
     filter (\<lambda>k. \<exists>t. expiresAt k = Some (DateObj t) \<and> now < t \<and> t \<le> now + daysAhead * day_ms
                   \<and> - max_time \<le> now + daysAhead * day_ms \<and> now + daysAhead * day_ms \<le> max_time)
       (map snd (keys km))"
proof -
  have "(\<lambda>k::StoredKey. case expiresAt k of None \<Rightarrow> False
         | Some d \<Rightarrow> truthy d \<and> date_le d (new_Date (now + daysAhead * day_ms)) \<and> date_gt d now)
        = (\<lambda>k. \<exists>t. expiresAt k = Some (DateObj t) \<and> now < t \<and> t \<le> now + daysAhead * day_ms
                   \<and> - max_time \<le> now + daysAhead * day_ms \<and> now + daysAhead * day_ms \<le> max_time)"
  proof (rule ext)
    fix k :: StoredKey
    show "(case expiresAt k of None \<Rightarrow> False
           | Some d \<Rightarrow> truthy d \<and> date_le d (new_Date (now + daysAhead * day_ms)) \<and> date_gt d now)
          = (\<exists>t. expiresAt k = Some (DateObj t) \<and> now < t \<and> t \<le> now + daysAhead * day_ms
                   \<and> - max_time \<le> now + daysAhead * day_ms \<and> now + daysAhead * day_ms \<le> max_time)"
      by (cases "expiresAt k")
         (auto simp: date_le_def date_gt_def truthy_def new_Date_def split: jsdate.splits)
  qed
  then show ?thesis by (simp add: getExpiringKeys_def)
qed
section \<open>KeyManager: rotation\<close>

lemma ceil_div_bounds:
  assumes "0 < b"
  shows "a \<le> ceil_div a b * b" and "ceil_div a b * b < a + b"
proof -
  have e: "- a = (- a) div b * b + (- a) mod b" by simp
  have r: "0 \<le> (- a) mod b" "(- a) mod b < b" using assms by simp_all
  have "ceil_div a b * b = - ((- a) div b * b)" by (simp add: ceil_div_def)
  also have "\<dots> = a + (- a) mod b" using e by linarith
  finally have c: "ceil_div a b * b = a + (- a) mod b" .
  from c r show "a \<le> ceil_div a b * b" by simp
  from c r show "ceil_div a b * b < a + b" by simp
qed

lemma ceil_div_pos: "0 < b \<Longrightarrow> 0 < a \<Longrightarrow> 0 < ceil_div a b"
proof -
  assume b: "0 < b" and a: "0 < a"
  from ceil_div_bounds(1) [OF b, of a] a have "0 < ceil_div a b * b" by simp
  with b show ?thesis by (simp add: zero_less_mult_iff)
qed

lemma map_of_map_set: "map_of (map_set k v m) = (map_of m)(k \<mapsto> v)"
  by (simp add: map_set_def update_conv')

lemma map_of_map_delete: "map_of (map_delete k m) = (map_of m)(k := None)"
  by (simp add: map_delete_def delete_conv')

lemma expiry_of_days:
  "expiry_of (Some n) now = (if n = 0 then None else Some (new_Date (now + n * day_ms)))"
  by (simp add: expiry_of_def)

lemma generateSymmetricKey_success:
  assumes gen: "generateSymmetricKey E L nm pu ow days idTime rnd expiryTime createdTime km
                  = (Inr newId, km')"
  obtains k where "newId = generateKeyId idTime rnd"
    "keys km' = map_set newId k (keys km)" "masterPassword km' = masterPassword km"
    "name k = nm" "purpose (metadata k) = pu" "owner (metadata k) = ow"
    "keyType k = Symmetric" "expiresAt k = expiry_of days expiryTime"
proof -
  obtain pw where ini: "ensureInitialized km = Inr pw"
    using gen by (cases "ensureInitialized km") (simp_all add: generateSymmetricKey_def)
  obtain material tape1 where m: "generateSecureKey DEFAULT_CONFIG (rand km) = (material, tape1)"
    by (cases "generateSecureKey DEFAULT_CONFIG (rand km)") auto
  obtain enc tape2 where
    e: "encryptText_of L DEFAULT_CONFIG (unawaited E material) pw tape1 = (enc, tape2)"
    by (cases "encryptText_of L DEFAULT_CONFIG (unawaited E material) pw tape1") auto
  from gen ini m e obtain encryptedKey where ek: "enc = Inr encryptedKey"
    by (cases enc) (simp_all add: generateSymmetricKey_def)
  let ?k = "\<lparr>keyId = generateKeyId idTime rnd, name = nm, keyType = Symmetric,
             keyAlgorithm = ''AES-256'', keyData = json_of_result L encryptedKey,
             keyPublic = None, createdAt = DateObj createdTime,
             expiresAt = expiry_of days expiryTime,
             metadata = \<lparr>purpose = pu, owner = ow, permissions = [''encrypt'', ''decrypt'']\<rparr>\<rparr>"
  from gen ini m e ek have
    "newId = generateKeyId idTime rnd"
    "km' = saveKeysToStorage (km\<lparr>rand := tape2, keys := map_set (generateKeyId idTime rnd) ?k (keys km)\<rparr>)"
    by (auto simp add: generateSymmetricKey_def Let_def)
  then have "newId = generateKeyId idTime rnd" "keys km' = map_set newId ?k (keys km)"
    "masterPassword km' = masterPassword km"
    by (simp_all add: saveKeysToStorage_def)
  then show ?thesis by (rule that) simp_all
qed

lemma generateAsymmetricKeyPair_success:
  assumes gen: "generateAsymmetricKeyPair L nm pu ow sz days idTime rnd expiryTime createdTime km
                  = (Inr newId, km')"
  obtains k where "newId = generateKeyId idTime rnd"
    "keys km' = map_set newId k (keys km)" "masterPassword km' = masterPassword km"
    "name k = nm" "purpose (metadata k) = pu" "owner (metadata k) = ow"
    "keyType k = Asymmetric" "expiresAt k = expiry_of days expiryTime"
proof -
  obtain pw where ini: "ensureInitialized km = Inr pw"
    using gen by (cases "ensureInitialized km") (simp_all add: generateAsymmetricKeyPair_def)
  obtain pair tape1 where m: "rsa L sz (rand km) = (pair, tape1)"
    by (cases "rsa L sz (rand km)") auto
  from gen ini m obtain keyPair where kp: "pair = Some keyPair"
    by (cases pair) (simp_all add: generateAsymmetricKeyPair_def)
  obtain enc tape2 where
    e: "encryptText L DEFAULT_CONFIG (privateKey keyPair) pw tape1 = (enc, tape2)"
    by (cases "encryptText L DEFAULT_CONFIG (privateKey keyPair) pw tape1") auto
  from gen ini m kp e obtain encryptedKey where ek: "enc = Inr encryptedKey"
    by (cases enc) (simp_all add: generateAsymmetricKeyPair_def)
  let ?k = "\<lparr>keyId = generateKeyId idTime rnd, name = nm, keyType = Asymmetric,
             keyAlgorithm = ''RSA-'' @ (case sz of None \<Rightarrow> ''NaN'' | Some n \<Rightarrow> dec n),
             keyData = json_of_result L encryptedKey,
             keyPublic = Some (publicKey keyPair), createdAt = DateObj createdTime,
             expiresAt = expiry_of days expiryTime,
             metadata = \<lparr>purpose = pu, owner = ow, permissions = [''sign'', ''decrypt'']\<rparr>\<rparr>"
  from gen ini m kp e ek have
    "newId = generateKeyId idTime rnd"
    "km' = saveKeysToStorage (km\<lparr>rand := tape2, keys := map_set (generateKeyId idTime rnd) ?k (keys km)\<rparr>)"
    by (auto simp add: generateAsymmetricKeyPair_def Let_def)
  then have "newId = generateKeyId idTime rnd" "keys km' = map_set newId ?k (keys km)"
    "masterPassword km' = masterPassword km"
    by (simp_all add: saveKeysToStorage_def)
  then show ?thesis by (rule that) simp_all
qed

text \<open>When the primitives deliver, a generation returns the id it drew.\<close>

lemma generateAsymmetricKeyPair_returns:
  assumes ini: "ensureInitialized km = Inr pw"
    and pair: "fst (rsa L sz (rand km)) = Some keyPair"
    and enc: "fst (encryptText L DEFAULT_CONFIG (privateKey keyPair) pw (snd (rsa L sz (rand km))))
                = Inr encrypted"
  shows "\<exists>km'. generateAsymmetricKeyPair L nm pu ow sz days idTime rnd expiryTime createdTime km
                  = (Inr (generateKeyId idTime rnd), km')"
proof -
  obtain tape1 where m: "rsa L sz (rand km) = (Some keyPair, tape1)"
    using pair by (cases "rsa L sz (rand km)") auto
  obtain tape2 where
    e: "encryptText L DEFAULT_CONFIG (privateKey keyPair) pw tape1 = (Inr encrypted, tape2)"
    using enc m by (cases "encryptText L DEFAULT_CONFIG (privateKey keyPair) pw tape1") auto
  from ini m e show ?thesis
    by (simp add: generateAsymmetricKeyPair_def Let_def)
qed

lemma generateSymmetricKey_returns:
  assumes ini: "ensureInitialized km = Inr pw"
    and enc: "fst (encryptText L DEFAULT_CONFIG (fst (generateSecureKey DEFAULT_CONFIG (rand km))) pw
                     (snd (generateSecureKey DEFAULT_CONFIG (rand km)))) = Inr encrypted"
  shows "\<exists>km'. generateSymmetricKey Direct L nm pu ow days idTime rnd expiryTime createdTime km
                  = (Inr (generateKeyId idTime rnd), km')"
proof -
  obtain material tape1 where m: "generateSecureKey DEFAULT_CONFIG (rand km) = (material, tape1)"
    by (cases "generateSecureKey DEFAULT_CONFIG (rand km)") auto
  obtain tape2 where
    e: "encryptText L DEFAULT_CONFIG material pw tape1 = (Inr encrypted, tape2)"
    using enc m by (cases "encryptText L DEFAULT_CONFIG material pw tape1") auto
  from ini m e show ?thesis
    by (simp add: generateSymmetricKey_def Let_def unawaited_def encryptText_of_def)
qed

text \<open>
  With the class \<open>Bridge\<close>, which the key manager imports, no symmetric key is ever
  generated: the key material is a promise, which \<^verbatim>\<open>encryptText\<close> cannot pass on.
\<close>

lemma generateSymmetricKey_bridge_fails:
  "fst (generateSymmetricKey Bridge L nm pu ow days idTime rnd expiryTime createdTime km)
     \<in> {Inl NotInitialized, Inl CloneFailure}"
proof (cases "ensureInitialized km")
  case (Inl e)
  then have "e = NotInitialized"
    by (auto simp: ensureInitialized_def split: option.splits if_splits)
  with Inl show ?thesis by (simp add: generateSymmetricKey_def)
next
  case (Inr pw)
  then have "pw \<noteq> []"
    by (auto simp: ensureInitialized_def split: option.splits if_splits)
  with Inr show ?thesis
    by (simp add: generateSymmetricKey_def Let_def unawaited_def encryptText_of_def
          split: prod.splits)
qed

lemma deleteKey_success:
  assumes "deleteKey kid km = (Inr u, km')"
  shows "keys km' = map_delete kid (keys km)" and "masterPassword km' = masterPassword km"
  using assms
  by (auto simp: deleteKey_def saveKeysToStorage_def split: sum.splits option.splits)

lemma deleteKey_returns:
  assumes "ensureInitialized km = Inr pw" and "map_of (keys km) kid = Some k"
  shows "\<exists>km'. deleteKey kid km = (Inr (), km')"
  using assms by (simp add: deleteKey_def)

lemma rotateKey_unfold:
  assumes "ensureInitialized km = Inr pw" and "map_of (keys km) kid = Some oldKey"
  shows "rotateKey E L kid now idTime rnd expiryTime createdTime km =
     (case remaining_days oldKey now of
        Inl e \<Rightarrow> (Inl e, km)
      | Inr days \<Rightarrow>
          (case rotate_generate E L oldKey days idTime rnd expiryTime createdTime km of
             (Inl e, km1) \<Rightarrow> (Inl e, km1)
           | (Inr newKeyId, km1) \<Rightarrow>
               (case deleteKey kid km1 of
                  (Inl e, km2) \<Rightarrow> (Inl e, km2)
                | (Inr u, km2) \<Rightarrow> (Inr newKeyId, km2))))"
proof (cases "remaining_days oldKey now")
  case (Inl e)
  with assms show ?thesis by (simp add: rotateKey_def)
next
  case (Inr days)
  with assms show ?thesis
    by (simp add: rotateKey_def rotate_generate_def Let_def split: prod.splits sum.splits)
qed

lemma rotate_generate_success:
  assumes "rotate_generate E L oldKey days idTime rnd expiryTime createdTime km = (Inr newId, km1)"
  obtains k where "newId = generateKeyId idTime rnd"
    "keys km1 = map_set newId k (keys km)" "masterPassword km1 = masterPassword km"
    "name k = name oldKey" "purpose (metadata k) = purpose (metadata oldKey)"
    "owner (metadata k) = owner (metadata oldKey)"
    "keyType k = keyType oldKey" "expiresAt k = expiry_of days expiryTime"
proof (cases "keyType oldKey")
  case Symmetric
  with assms have "generateSymmetricKey E L (name oldKey) (purpose (metadata oldKey))
      (owner (metadata oldKey)) days idTime rnd expiryTime createdTime km = (Inr newId, km1)"
    by (simp add: rotate_generate_def)
  then show ?thesis using Symmetric
    by (elim generateSymmetricKey_success) (rule that, simp_all)
next
  case Asymmetric
  with assms have "generateAsymmetricKeyPair L (name oldKey) (purpose (metadata oldKey))
      (owner (metadata oldKey)) (parseInt (second_field (keyAlgorithm oldKey))) days idTime rnd
      expiryTime createdTime km = (Inr newId, km1)"
    by (simp add: rotate_generate_def)
  then show ?thesis using Asymmetric
    by (elim generateAsymmetricKeyPair_success) (rule that, simp_all)
qed

lemma rotate_generate_returns:
  assumes ini: "ensureInitialized km = Inr pw"
    and material:
      "(keyType oldKey = Asymmetric
          \<and> (\<exists>keyPair encrypted.
                fst (rsa L (parseInt (second_field (keyAlgorithm oldKey))) (rand km)) = Some keyPair
                \<and> fst (encryptText L DEFAULT_CONFIG (privateKey keyPair) pw
                         (snd (rsa L (parseInt (second_field (keyAlgorithm oldKey))) (rand km))))
                    = Inr encrypted))
       \<or> (keyType oldKey = Symmetric \<and> E = Direct
          \<and> (\<exists>encrypted.
                fst (encryptText L DEFAULT_CONFIG (fst (generateSecureKey DEFAULT_CONFIG (rand km)))
                       pw (snd (generateSecureKey DEFAULT_CONFIG (rand km)))) = Inr encrypted))"
  shows "\<exists>km1. rotate_generate E L oldKey days idTime rnd expiryTime createdTime km
                  = (Inr (generateKeyId idTime rnd), km1)"
  using material
proof (elim disjE conjE exE)
  fix keyPair encrypted
  assume "keyType oldKey = Asymmetric"
    and "fst (rsa L (parseInt (second_field (keyAlgorithm oldKey))) (rand km)) = Some keyPair"
    and "fst (encryptText L DEFAULT_CONFIG (privateKey keyPair) pw
               (snd (rsa L (parseInt (second_field (keyAlgorithm oldKey))) (rand km))))
          = Inr encrypted"
  then show ?thesis
    using generateAsymmetricKeyPair_returns [OF ini, of L _ keyPair encrypted]
    by (simp add: rotate_generate_def)
next
  fix encrypted
  assume "keyType oldKey = Symmetric" and "E = Direct"
    and "fst (encryptText L DEFAULT_CONFIG (fst (generateSecureKey DEFAULT_CONFIG (rand km))) pw
               (snd (generateSecureKey DEFAULT_CONFIG (rand km)))) = Inr encrypted"
  then show ?thesis
    using generateSymmetricKey_returns [OF ini, of L encrypted]
    by (simp add: rotate_generate_def)
qed

lemma remaining_days_None: "expiresAt oldKey = None \<Longrightarrow> remaining_days oldKey now = Inr None"
  by (simp add: remaining_days_def)

lemma remaining_days_Date:
  "expiresAt oldKey = Some (DateObj e) \<Longrightarrow>
     remaining_days oldKey now = Inr (Some (ceil_div (e - now) day_ms))"
  by (simp add: remaining_days_def getTime_def truthy_def)

lemma remaining_days_text:
  "expiresAt oldKey = Some (DateIso e) \<Longrightarrow> remaining_days oldKey now = Inl TypeError"
  by (simp add: remaining_days_def getTime_def truthy_def)

lemma day_ms_pos: "0 < day_ms"
  by (simp add: day_ms_def)

text \<open>What \<^verbatim>\<open>rotateKey\<close> returns and leaves behind once the generation has returned.\<close>

lemma rotateKey_after_generation:
  assumes ini: "ensureInitialized km = Inr pw"
    and old: "map_of (keys km) kid = Some oldKey"
    and days: "remaining_days oldKey now = Inr days"
    and gen: "rotate_generate E L oldKey days idTime rnd expiryTime createdTime km = (Inr newId, km1)"
  obtains km' k where
    "rotateKey E L kid now idTime rnd expiryTime createdTime km = (Inr newId, km')"
    "newId = generateKeyId idTime rnd"
    "keys km' = map_delete kid (map_set newId k (keys km))"
    "masterPassword km' = masterPassword km"
    "name k = name oldKey" "purpose (metadata k) = purpose (metadata oldKey)"
    "owner (metadata k) = owner (metadata oldKey)"
    "keyType k = keyType oldKey" "expiresAt k = expiry_of days expiryTime"
proof -
  from rotate_generate_success [OF gen] obtain k where
    nid: "newId = generateKeyId idTime rnd" and
    k1: "keys km1 = map_set newId k (keys km)" and
    p1: "masterPassword km1 = masterPassword km" and
    f: "name k = name oldKey" "purpose (metadata k) = purpose (metadata oldKey)"
       "owner (metadata k) = owner (metadata oldKey)"
       "keyType k = keyType oldKey" "expiresAt k = expiry_of days expiryTime"
    by blast
  from ini p1 have ini1: "ensureInitialized km1 = Inr pw"
    by (simp add: ensureInitialized_def)
  from k1 old have "\<exists>k'. map_of (keys km1) kid = Some k'"
    by (simp add: map_of_map_set)
  then obtain k' where there: "map_of (keys km1) kid = Some k'" ..
  from deleteKey_returns [OF ini1 there] obtain km' where
    del: "deleteKey kid km1 = (Inr (), km')" ..
  from deleteKey_success [OF del] k1 p1 have
    k2: "keys km' = map_delete kid (map_set newId k (keys km))" and
    p2: "masterPassword km' = masterPassword km"
    by simp_all
  have "rotateKey E L kid now idTime rnd expiryTime createdTime km = (Inr newId, km')"
    by (simp add: rotateKey_unfold [OF ini old] days gen del)
  then show ?thesis using nid k2 p2 f by (rule that)
qed

text \<open>
  C6, amended. Take an initialized key manager, a key \<open>kid\<close> of its map that has no expiry
  or whose expiry is a \<^verbatim>\<open>Date\<close> still ahead, readings of the clock, and primitives that
  deliver the new key material: a key pair and the encryption of its private key, or, for a
  symmetric key, which only the class \<open>Direct\<close> can generate, the encryption of the new key.
  Then \<^verbatim>\<open>rotateKey\<close> returns the id that the generation drew from the clock and
  \<^verbatim>\<open>Math.random\<close>, and afterwards \<open>kid\<close> is not in the map: \<^verbatim>\<open>getKey\<close> on it fails with
  \<open>KeyNotFound\<close>. If the id drawn is not \<open>kid\<close> itself, which nothing in the code excludes,
  the map holds under it a key with the name, the purpose, the owner and the type of the old
  one. A key without expiry gives a key without expiry; otherwise the new expiry is the
  \<^verbatim>\<open>Date\<close> made of the reading of the clock for the expiry plus \<open>n\<close> whole days, where \<open>n\<close> is
  the old key's remaining time rounded up to days.
\<close>

theorem rotateKey_carries_over:
  assumes ini: "ensureInitialized km = Inr pw"
    and old: "map_of (keys km) kid = Some oldKey"
    and live: "expiresAt oldKey = None
               \<or> (\<exists>e. expiresAt oldKey = Some (DateObj e) \<and> now < e \<and> e \<le> max_time)"
    and clock: "clock_reading now \<and> clock_reading idTime \<and> clock_reading expiryTime
               \<and> clock_reading createdTime"
    and material:
      "(keyType oldKey = Asymmetric
          \<and> (\<exists>keyPair encrypted.
                fst (rsa L (parseInt (second_field (keyAlgorithm oldKey))) (rand km)) = Some keyPair
                \<and> fst (encryptText L DEFAULT_CONFIG (privateKey keyPair) pw
                         (snd (rsa L (parseInt (second_field (keyAlgorithm oldKey))) (rand km))))
                    = Inr encrypted))
       \<or> (keyType oldKey = Symmetric \<and> E = Direct
          \<and> (\<exists>encrypted.
                fst (encryptText L DEFAULT_CONFIG (fst (generateSecureKey DEFAULT_CONFIG (rand km)))
                       pw (snd (generateSecureKey DEFAULT_CONFIG (rand km)))) = Inr encrypted))"
  shows "\<exists>km'.
       rotateKey E L kid now idTime rnd expiryTime createdTime km
         = (Inr (generateKeyId idTime rnd), km')
     \<and> map_of (keys km') kid = None
     \<and> getKey L kid t km' = Inl KeyNotFound
     \<and> (generateKeyId idTime rnd \<noteq> kid \<longrightarrow>
          (\<exists>newKey. map_of (keys km') (generateKeyId idTime rnd) = Some newKey
             \<and> name newKey = name oldKey
             \<and> purpose (metadata newKey) = purpose (metadata oldKey)
             \<and> owner (metadata newKey) = owner (metadata oldKey)
             \<and> keyType newKey = keyType oldKey
             \<and> (case expiresAt oldKey of
                   None \<Rightarrow> expiresAt newKey = None
                 | Some d \<Rightarrow>
                     (\<exists>e n. d = DateObj e \<and> n = ceil_div (e - now) day_ms
                        \<and> expiresAt newKey = Some (new_Date (expiryTime + n * day_ms))
                        \<and> e - now \<le> n * day_ms \<and> n * day_ms < e - now + day_ms))))"
proof -
  obtain days where d: "remaining_days oldKey now = Inr days"
    using live by (auto simp: remaining_days_None remaining_days_Date)
  from rotate_generate_returns [OF ini material] obtain km1 where
    g: "rotate_generate E L oldKey days idTime rnd expiryTime createdTime km
          = (Inr (generateKeyId idTime rnd), km1)"
    by blast
  from rotateKey_after_generation [OF ini old d g] obtain km' k where
    rot: "rotateKey E L kid now idTime rnd expiryTime createdTime km
            = (Inr (generateKeyId idTime rnd), km')" and
    k2: "keys km' = map_delete kid (map_set (generateKeyId idTime rnd) k (keys km))" and
    p2: "masterPassword km' = masterPassword km" and
    nm: "name k = name oldKey" and pu: "purpose (metadata k) = purpose (metadata oldKey)" and
    ow: "owner (metadata k) = owner (metadata oldKey)" and
    ty: "keyType k = keyType oldKey" and ex: "expiresAt k = expiry_of days expiryTime"
    by blast
  from k2 have gone: "map_of (keys km') kid = None"
    by (simp add: map_of_map_delete)
  from ini p2 have ini': "ensureInitialized km' = Inr pw"
    by (simp add: ensureInitialized_def)
  have nf: "getKey L kid t km' = Inl KeyNotFound"
    using ini' gone by (rule getKey_absent)
  have exp: "case expiresAt oldKey of
               None \<Rightarrow> expiresAt k = None
             | Some d \<Rightarrow>
                 (\<exists>e n. d = DateObj e \<and> n = ceil_div (e - now) day_ms
                    \<and> expiresAt k = Some (new_Date (expiryTime + n * day_ms))
                    \<and> e - now \<le> n * day_ms \<and> n * day_ms < e - now + day_ms)"
  proof (cases "expiresAt oldKey")
    case None
    with d have "days = None" by (simp add: remaining_days_None)
    with ex None show ?thesis by (simp add: expiry_of_def)
  next
    case (Some dt)
    with live obtain e where e: "dt = DateObj e" and lt: "now < e" by auto
    from Some e d have ds: "days = Some (ceil_div (e - now) day_ms)"
      by (simp add: remaining_days_Date)
    from lt have "0 < ceil_div (e - now) day_ms"
      by (intro ceil_div_pos day_ms_pos) simp
    with ex ds have
      "expiresAt k = Some (new_Date (expiryTime + ceil_div (e - now) day_ms * day_ms))"
      by (simp add: expiry_of_days)
    with Some e ceil_div_bounds [OF day_ms_pos, of "e - now"] show ?thesis by simp
  qed
  have new: "generateKeyId idTime rnd \<noteq> kid \<longrightarrow>
      map_of (keys km') (generateKeyId idTime rnd) = Some k"
    using k2 by (simp add: map_of_map_delete map_of_map_set)
  from rot gone nf new nm pu ow ty exp show ?thesis by blast
qed

lemma session_facts:
  "ensureInitialized session = Inr ''Str0ng!Pass1234''
   \<and> map_option (\<lambda>k. (name k, purpose (metadata k), owner (metadata k), keyType k,
                       keyAlgorithm k, expiresAt k))
        (map_of (keys session) ''key_1000_abc123xyz'')
        = Some (''signing-key'', ''signing'', ''admin'', Asymmetric, ''RSA-2048'',
                Some (DateObj 86401000))
   \<and> (case fst (rsa ref_runtime (parseInt (second_field ''RSA-2048'')) (rand session)) of
         None \<Rightarrow> False
       | Some keyPair \<Rightarrow>
           (case fst (encryptText ref_runtime DEFAULT_CONFIG (privateKey keyPair) ''Str0ng!Pass1234''
                        (snd (rsa ref_runtime (parseInt (second_field ''RSA-2048'')) (rand session)))) of
              Inl e \<Rightarrow> False
            | Inr encrypted \<Rightarrow> True))
   \<and> generateKeyId 2001 ''r2'' = ''key_2001_r2''"
  by code_simp

lemma direct_session_facts:
  "ensureInitialized direct_session = Inr ''Str0ng!Pass1234''
   \<and> map_option (\<lambda>k. (name k, purpose (metadata k), owner (metadata k), keyType k, expiresAt k))
        (map_of (keys direct_session) ''key_1000_k3y000001'')
        = Some (''invoice-key'', ''billing'', ''admin'', Symmetric, Some (DateObj 864001200))
   \<and> (case fst (encryptText ref_runtime DEFAULT_CONFIG
                   (fst (generateSecureKey DEFAULT_CONFIG (rand direct_session))) ''Str0ng!Pass1234''
                   (snd (generateSecureKey DEFAULT_CONFIG (rand direct_session)))) of
         Inl e \<Rightarrow> False
       | Inr encrypted \<Rightarrow> True)
   \<and> generateKeyId 5001 ''r3'' = ''key_5001_r3''"
  by code_simp

text \<open>
  Two rotations: of the key pair of the session, with the class \<open>Bridge\<close>, and of the
  symmetric key, with the class \<open>Direct\<close>. The key pair has just under a day left and gets
  one day from the reading 2500; the symmetric key has just under ten days left and gets
  ten days from the reading 5600.
\<close>

theorem rotateKey_carries_over_witness:
  "(\<exists>km' newKey.
     rotateKey Bridge ref_runtime ''key_1000_abc123xyz'' 2000 2001 ''r2'' 2500 2501 session
       = (Inr ''key_2001_r2'', km')
     \<and> map_of (keys km') ''key_2001_r2'' = Some newKey
     \<and> name newKey = ''signing-key''
     \<and> purpose (metadata newKey) = ''signing''
     \<and> owner (metadata newKey) = ''admin''
     \<and> keyType newKey = Asymmetric
     \<and> expiresAt newKey = Some (DateObj (2500 + day_ms))
     \<and> map_of (keys km') ''key_1000_abc123xyz'' = None
     \<and> getKey ref_runtime ''key_1000_abc123xyz'' 3000 km' = Inl KeyNotFound)
   \<and> (\<exists>km' newKey.
     rotateKey Direct ref_runtime ''key_1000_k3y000001'' 5000 5001 ''r3'' 5600 5601 direct_session
       = (Inr ''key_5001_r3'', km')
     \<and> map_of (keys km') ''key_5001_r3'' = Some newKey
     \<and> name newKey = ''invoice-key''
     \<and> purpose (metadata newKey) = ''billing''
     \<and> owner (metadata newKey) = ''admin''
     \<and> keyType newKey = Symmetric
     \<and> expiresAt newKey = Some (DateObj (5600 + 10 * day_ms))
     \<and> map_of (keys km') ''key_1000_k3y000001'' = None
     \<and> getKey ref_runtime ''key_1000_k3y000001'' 6000 km' = Inl KeyNotFound)"
proof (rule conjI)
  from session_facts obtain oldKey where
    ini: "ensureInitialized session = Inr ''Str0ng!Pass1234''" and
    old: "map_of (keys session) ''key_1000_abc123xyz'' = Some oldKey" and
    nm: "name oldKey = ''signing-key''" "purpose (metadata oldKey) = ''signing''"
        "owner (metadata oldKey) = ''admin''" and
    ty: "keyType oldKey = Asymmetric" and al: "keyAlgorithm oldKey = ''RSA-2048''" and
    ex: "expiresAt oldKey = Some (DateObj 86401000)" and
    nid: "generateKeyId 2001 ''r2'' = ''key_2001_r2''"
    by auto
  from session_facts obtain keyPair encrypted where
    kp: "fst (rsa ref_runtime (parseInt (second_field ''RSA-2048'')) (rand session)) = Some keyPair"
    and en: "fst (encryptText ref_runtime DEFAULT_CONFIG (privateKey keyPair) ''Str0ng!Pass1234''
                    (snd (rsa ref_runtime (parseInt (second_field ''RSA-2048'')) (rand session))))
               = Inr encrypted"
    by (auto split: option.splits sum.splits)
  from ex have live: "expiresAt oldKey = None
      \<or> (\<exists>e. expiresAt oldKey = Some (DateObj e) \<and> 2000 < e \<and> e \<le> max_time)"
    by (simp add: max_time_def)
  have clock: "clock_reading 2000 \<and> clock_reading 2001 \<and> clock_reading 2500 \<and> clock_reading 2501"
    by (simp add: clock_reading_def max_time_def)
  from ty al kp en have material:
    "(keyType oldKey = Asymmetric
        \<and> (\<exists>keyPair encrypted.
              fst (rsa ref_runtime (parseInt (second_field (keyAlgorithm oldKey))) (rand session))
                = Some keyPair
              \<and> fst (encryptText ref_runtime DEFAULT_CONFIG (privateKey keyPair) ''Str0ng!Pass1234''
                       (snd (rsa ref_runtime (parseInt (second_field (keyAlgorithm oldKey)))
                               (rand session))))
                  = Inr encrypted))
     \<or> (keyType oldKey = Symmetric \<and> Bridge = Direct
        \<and> (\<exists>encrypted.
              fst (encryptText ref_runtime DEFAULT_CONFIG
                     (fst (generateSecureKey DEFAULT_CONFIG (rand session))) ''Str0ng!Pass1234''
                     (snd (generateSecureKey DEFAULT_CONFIG (rand session)))) = Inr encrypted))"
    by auto
  have n: "ceil_div (86401000 - 2000) day_ms = 1"
    by (simp add: ceil_div_def day_ms_def)
  have dt: "new_Date (2500 + 1 * day_ms) = DateObj (2500 + day_ms)"
    by (simp add: new_Date_def max_time_def day_ms_def)
  have ne: "''key_2001_r2'' \<noteq> ''key_1000_abc123xyz''" by simp
  from rotateKey_carries_over [OF ini old live clock material, where rnd = "''r2''" and t = 3000]
  show "\<exists>km' newKey.
     rotateKey Bridge ref_runtime ''key_1000_abc123xyz'' 2000 2001 ''r2'' 2500 2501 session
       = (Inr ''key_2001_r2'', km')
     \<and> map_of (keys km') ''key_2001_r2'' = Some newKey
     \<and> name newKey = ''signing-key''
     \<and> purpose (metadata newKey) = ''signing''
     \<and> owner (metadata newKey) = ''admin''
     \<and> keyType newKey = Asymmetric
     \<and> expiresAt newKey = Some (DateObj (2500 + day_ms))
     \<and> map_of (keys km') ''key_1000_abc123xyz'' = None
     \<and> getKey ref_runtime ''key_1000_abc123xyz'' 3000 km' = Inl KeyNotFound"
    unfolding nid using nm ty ex n dt ne by auto
next
  from direct_session_facts obtain oldKey where
    ini: "ensureInitialized direct_session = Inr ''Str0ng!Pass1234''" and
    old: "map_of (keys direct_session) ''key_1000_k3y000001'' = Some oldKey" and
    nm: "name oldKey = ''invoice-key''" "purpose (metadata oldKey) = ''billing''"
        "owner (metadata oldKey) = ''admin''" and
    ty: "keyType oldKey = Symmetric" and
    ex: "expiresAt oldKey = Some (DateObj 864001200)" and
    nid: "generateKeyId 5001 ''r3'' = ''key_5001_r3''"
    by auto
  from direct_session_facts obtain encrypted where
    en: "fst (encryptText ref_runtime DEFAULT_CONFIG
                (fst (generateSecureKey DEFAULT_CONFIG (rand direct_session))) ''Str0ng!Pass1234''
                (snd (generateSecureKey DEFAULT_CONFIG (rand direct_session)))) = Inr encrypted"
    by (auto split: sum.splits)
  from ex have live: "expiresAt oldKey = None
      \<or> (\<exists>e. expiresAt oldKey = Some (DateObj e) \<and> 5000 < e \<and> e \<le> max_time)"
    by (simp add: max_time_def)
  have clock: "clock_reading 5000 \<and> clock_reading 5001 \<and> clock_reading 5600 \<and> clock_reading 5601"
    by (simp add: clock_reading_def max_time_def)
  from ty en have material:
    "(keyType oldKey = Asymmetric
        \<and> (\<exists>keyPair encrypted.
              fst (rsa ref_runtime (parseInt (second_field (keyAlgorithm oldKey)))
                     (rand direct_session)) = Some keyPair
              \<and> fst (encryptText ref_runtime DEFAULT_CONFIG (privateKey keyPair) ''Str0ng!Pass1234''
                       (snd (rsa ref_runtime (parseInt (second_field (keyAlgorithm oldKey)))
                               (rand direct_session))))
                  = Inr encrypted))
     \<or> (keyType oldKey = Symmetric \<and> Direct = Direct
        \<and> (\<exists>encrypted.
              fst (encryptText ref_runtime DEFAULT_CONFIG
                     (fst (generateSecureKey DEFAULT_CONFIG (rand direct_session)))
                     ''Str0ng!Pass1234''
                     (snd (generateSecureKey DEFAULT_CONFIG (rand direct_session))))
                = Inr encrypted))"
    by auto
  have n: "ceil_div (864001200 - 5000) day_ms = 10"
    by (simp add: ceil_div_def day_ms_def)
  have dt: "new_Date (5600 + 10 * day_ms) = DateObj (5600 + 10 * day_ms)"
    by (simp add: new_Date_def max_time_def day_ms_def)
  have ne: "''key_5001_r3'' \<noteq> ''key_1000_k3y000001''" by simp
  from rotateKey_carries_over [OF ini old live clock material, where rnd = "''r3''" and t = 6000]
  show "\<exists>km' newKey.
     rotateKey Direct ref_runtime ''key_1000_k3y000001'' 5000 5001 ''r3'' 5600 5601 direct_session
       = (Inr ''key_5001_r3'', km')
     \<and> map_of (keys km') ''key_5001_r3'' = Some newKey
     \<and> name newKey = ''invoice-key''
     \<and> purpose (metadata newKey) = ''billing''
     \<and> owner (metadata newKey) = ''admin''
     \<and> keyType newKey = Symmetric
     \<and> expiresAt newKey = Some (DateObj (5600 + 10 * day_ms))
     \<and> map_of (keys km') ''key_1000_k3y000001'' = None
     \<and> getKey ref_runtime ''key_1000_k3y000001'' 6000 km' = Inl KeyNotFound"
    unfolding nid using nm ty ex n dt ne by auto
qed

text \<open>
  C6 as stated fails. The key of the session expires at instant 86401000. Rotated one
  millisecond before, it is replaced by a key that expires a whole day after the rotation:
  the day it was first given, not the millisecond it had left.
\<close>

theorem rotateKey_rounds_up_run:
  "map_option expiresAt (map_of (keys session) ''key_1000_abc123xyz'')
     = Some (Some (DateObj (86400999 + 1)))
   \<and> (case rotateKey Bridge ref_runtime ''key_1000_abc123xyz'' 86400999 86400999 ''r2''
             86400999 86400999 session of
        (r, km') \<Rightarrow>
          r = Inr ''key_86400999_r2''
          \<and> map_option expiresAt (map_of (keys km') ''key_86400999_r2'')
              = Some (Some (DateObj (86400999 + day_ms))))"
  by code_simp

text \<open>
  Behaviours of \<^verbatim>\<open>rotateKey\<close> that the amended statement leaves out. A key whose expiry is
  held as text (every key after a restart) cannot be rotated: \<^verbatim>\<open>getTime\<close> is missing. A key
  that expired less than a day ago has zero days left, which
  \<^verbatim>\<open>expirationDays ? ... : undefined\<close> reads as no expiry at all. With the class \<open>Bridge\<close> a
  symmetric key cannot be rotated, since none can be generated. And when the generation
  draws the id of the old key again (the same reading of the clock and the same random
  text as when the old key was made), the new key replaces the old one in the map and is
  deleted in its place: the call returns the id, and the map has lost both.
\<close>

lemma rotateKey_text_expiry:
  assumes "ensureInitialized km = Inr pw" and "map_of (keys km) kid = Some oldKey"
    and "expiresAt oldKey = Some (DateIso e)"
  shows "rotateKey E L kid now idTime rnd expiryTime createdTime km = (Inl TypeError, km)"
  using assms by (simp add: rotateKey_unfold remaining_days_text)

lemma rotateKey_just_expired:
  assumes "expiresAt oldKey = Some (DateObj e)" and "now - day_ms < e" and "e \<le> now"
  shows "remaining_days oldKey now = Inr (Some 0)" and "expiry_of (Some 0) expiryTime = None"
proof -
  from ceil_div_bounds [OF day_ms_pos, of "e - now"] assms(2,3) day_ms_pos
  have lt: "ceil_div (e - now) day_ms * day_ms < day_ms"
    and gt: "- day_ms < ceil_div (e - now) day_ms * day_ms"
    by linarith+
  have "\<not> 1 \<le> ceil_div (e - now) day_ms"
  proof
    assume "1 \<le> ceil_div (e - now) day_ms"
    then have "1 * day_ms \<le> ceil_div (e - now) day_ms * day_ms"
      using day_ms_pos by (intro mult_right_mono) simp_all
    with lt show False by linarith
  qed
  moreover have "\<not> ceil_div (e - now) day_ms \<le> - 1"
  proof
    assume "ceil_div (e - now) day_ms \<le> - 1"
    then have "ceil_div (e - now) day_ms * day_ms \<le> (- 1) * day_ms"
      using day_ms_pos by (intro mult_right_mono) simp_all
    with gt show False by linarith
  qed
  ultimately have "ceil_div (e - now) day_ms = 0" by linarith
  with assms(1) show "remaining_days oldKey now = Inr (Some 0)"
    by (simp add: remaining_days_Date)
  show "expiry_of (Some 0) expiryTime = None" by (simp add: expiry_of_def)
qed

lemma rotateKey_symmetric_bridge_fails:
  assumes "ensureInitialized km = Inr pw" and "map_of (keys km) kid = Some oldKey"
    and "keyType oldKey = Symmetric"
  shows "\<exists>e. fst (rotateKey Bridge L kid now idTime rnd expiryTime createdTime km) = Inl e"
proof (cases "remaining_days oldKey now")
  case (Inl e)
  with assms show ?thesis by (simp add: rotateKey_unfold)
next
  case (Inr days)
  obtain r km1 where g:
    "generateSymmetricKey Bridge L (name oldKey) (purpose (metadata oldKey))
       (owner (metadata oldKey)) days idTime rnd expiryTime createdTime km = (r, km1)"
    by (cases "generateSymmetricKey Bridge L (name oldKey) (purpose (metadata oldKey))
       (owner (metadata oldKey)) days idTime rnd expiryTime createdTime km") auto
  with generateSymmetricKey_bridge_fails [of L "name oldKey" "purpose (metadata oldKey)"
      "owner (metadata oldKey)" days idTime rnd expiryTime createdTime km]
  obtain e where "r = Inl e" by auto
  with assms Inr g show ?thesis
    by (simp add: rotateKey_unfold rotate_generate_def)
qed

lemma rotateKey_same_id_run:
  "(case rotateKey Bridge ref_runtime ''key_1000_abc123xyz'' 1000 1000 ''abc123xyz'' 1000 1000
           session of
      (r, km') \<Rightarrow> r = Inr ''key_1000_abc123xyz'' \<and> keys km' = [])"
  by code_simp
section \<open>CryptoEngine: salt and IV\<close>

lemma randomBytes_fst: "fst (randomBytes n tape) = map tape [0..<n]"
  by (simp add: randomBytes_def)

lemma randomBytes_snd: "snd (randomBytes n tape) = (\<lambda>i. tape (i + n))"
  by (simp add: randomBytes_def)

lemma encryptText_draws:
  assumes "encryptText L cfg t p tape = (Inr r, tape')"
  shows "salt r = to_hex (map tape [0..<saltLength cfg])"
    and "iv r = to_hex (map (\<lambda>i. tape (i + saltLength cfg)) [0..<ivLength cfg])"
    and "tape' = (\<lambda>i. tape (i + (saltLength cfg + ivLength cfg)))"
proof -
  from assms obtain ct tg where
    r: "r = \<lparr>encryptedData = to_hex ct,
          iv = to_hex (fst (randomBytes (ivLength cfg) (snd (randomBytes (saltLength cfg) tape)))),
          salt = to_hex (fst (randomBytes (saltLength cfg) tape)),
          tag = (if algorithm cfg = AES_256_GCM then Some (to_hex tg) else None)\<rparr>" and
    t: "tape' = snd (randomBytes (ivLength cfg) (snd (randomBytes (saltLength cfg) tape)))"
    by (rule encryptText_success)
  from r show "salt r = to_hex (map tape [0..<saltLength cfg])"
    by (simp add: randomBytes_fst)
  from r show "iv r = to_hex (map (\<lambda>i. tape (i + saltLength cfg)) [0..<ivLength cfg])"
    by (simp add: randomBytes_fst randomBytes_snd)
  from t show "tape' = (\<lambda>i. tape (i + (saltLength cfg + ivLength cfg)))"
    by (simp add: randomBytes_snd ac_simps)
qed

text \<open>
  C7 as stated fails: nothing in \<^verbatim>\<open>encryptText\<close> compares a salt or an IV with an earlier
  one, so a random source that gives the same bytes twice gives the same salt and the same
  IV twice.
\<close>

theorem equal_draws_equal_salts_run:
  "(case encryptText ref_runtime DEFAULT_CONFIG ''total: 42'' ''password123'' zero_tape of
      (Inr r1, tape1) \<Rightarrow>
        (case encryptText ref_runtime DEFAULT_CONFIG ''total: 42'' ''password123'' tape1 of
           (Inr r2, tape2) \<Rightarrow> salt r1 = salt r2 \<and> iv r1 = iv r2
         | (Inl e, tape2) \<Rightarrow> False)
    | (Inl e, tape1) \<Rightarrow> False)"
  by code_simp

text \<open>
  C7, amended. Every call draws its salt and then its IV from the random source, at
  positions of the tape that no other call reads: a first call reads the first
  \<open>saltLength + ivLength\<close> bytes; a later call, made after \<open>j\<close> more bytes were drawn in
  between, reads the bytes from position \<open>saltLength + ivLength + j\<close> on. Neither the
  plaintext nor the password enters a salt or an IV. The two salts are equal only when the
  source gave the same salt bytes twice, and likewise the two IVs.
\<close>

theorem salt_iv_drawn_per_call:
  assumes e1: "encryptText L cfg t1 p1 tape = (Inr r1, tape1)"
    and e2: "encryptText L cfg t2 p2 (\<lambda>i. tape1 (i + j)) = (Inr r2, tape2)"
  shows "salt r1 = to_hex (map tape [0..<saltLength cfg])
     \<and> iv r1 = to_hex (map (\<lambda>i. tape (i + saltLength cfg)) [0..<ivLength cfg])
     \<and> salt r2 = to_hex (map (\<lambda>i. tape (i + (saltLength cfg + ivLength cfg + j)))
                          [0..<saltLength cfg])
     \<and> iv r2 = to_hex (map (\<lambda>i. tape (i + (saltLength cfg + ivLength cfg + j) + saltLength cfg))
                        [0..<ivLength cfg])
     \<and> (salt r1 = salt r2 \<longleftrightarrow>
          map tape [0..<saltLength cfg]
            = map (\<lambda>i. tape (i + (saltLength cfg + ivLength cfg + j))) [0..<saltLength cfg])
     \<and> (iv r1 = iv r2 \<longleftrightarrow>
          map (\<lambda>i. tape (i + saltLength cfg)) [0..<ivLength cfg]
            = map (\<lambda>i. tape (i + (saltLength cfg + ivLength cfg + j) + saltLength cfg))
                [0..<ivLength cfg])"
proof -
  note a = encryptText_draws [OF e1]
  note b = encryptText_draws [OF e2, unfolded a(3)]
  have s2: "salt r2 = to_hex (map (\<lambda>i. tape (i + (saltLength cfg + ivLength cfg + j)))
                          [0..<saltLength cfg])"
    using b(1) by (simp add: ac_simps)
  have i2: "iv r2 = to_hex (map (\<lambda>i. tape (i + (saltLength cfg + ivLength cfg + j) + saltLength cfg))
                        [0..<ivLength cfg])"
    using b(2) by (simp add: ac_simps)
  have inj: "to_hex x = to_hex y \<longleftrightarrow> x = y" for x y
    using to_hex_inj by blast
  show ?thesis
    by (simp only: a(1) a(2) s2 i2 inj simp_thms)
qed

theorem salt_iv_drawn_per_call_witness:
  "\<exists>r1 tape1 r2 tape2.
     encryptText ref_runtime DEFAULT_CONFIG ''total: 42'' ''password123'' count_tape = (Inr r1, tape1)
     \<and> encryptText ref_runtime DEFAULT_CONFIG ''total: 42'' ''password123'' (\<lambda>i. tape1 (i + 0))
          = (Inr r2, tape2)
     \<and> salt r1 \<noteq> salt r2 \<and> iv r1 \<noteq> iv r2"
proof -
  obtain r1 tape1 where
    e1: "encryptText ref_runtime DEFAULT_CONFIG ''total: 42'' ''password123'' count_tape = (Inr r1, tape1)"
    by (simp add: encryptText_def deriveKey_def ref_runtime_def split_beta)
  obtain r2 tape2 where
    e2: "encryptText ref_runtime DEFAULT_CONFIG ''total: 42'' ''password123'' (\<lambda>i. tape1 (i + 0))
           = (Inr r2, tape2)"
    by (simp add: encryptText_def deriveKey_def ref_runtime_def split_beta)
  have n1: "map count_tape [0..<saltLength DEFAULT_CONFIG]
          \<noteq> map (\<lambda>i. count_tape (i + (saltLength DEFAULT_CONFIG + ivLength DEFAULT_CONFIG + 0)))
               [0..<saltLength DEFAULT_CONFIG]"
    by code_simp
  have n2: "map (\<lambda>i. count_tape (i + saltLength DEFAULT_CONFIG)) [0..<ivLength DEFAULT_CONFIG]
          \<noteq> map (\<lambda>i. count_tape (i + (saltLength DEFAULT_CONFIG + ivLength DEFAULT_CONFIG + 0)
                         + saltLength DEFAULT_CONFIG)) [0..<ivLength DEFAULT_CONFIG]"
    by code_simp
  note th = salt_iv_drawn_per_call [OF e1 e2]
  from th n1 have s: "salt r1 \<noteq> salt r2" by blast
  from th n2 have i: "iv r1 \<noteq> iv r2" by blast
  from e1 e2 s i show ?thesis by blast
qed

section \<open>SecureStorage: store and retrieve\<close>

lemma date_lt_json_date: "(truthy (json_date d) \<and> date_lt (json_date d) now) = False"
  by (cases d) (simp_all add: date_lt_def json_date_def truthy_def)

lemma store_success:
  assumes st: "store E L J key d password options now st = (Inr (), st')"
  obtains s p er tape' where
    "validateKey key = Inr ()" "validatePassword password = Inr ()"
    "stringify J d = Text s"
    "(if compressionEnabled options = Some True then compressData L s else Inr s) = Inr p"
    "encryptText L DEFAULT_CONFIG p password (srand st) = (Inr er, tape')"
    "items st' (fullKey key) =
       Some \<lparr>itemId = key, itemData = er,
             itemMetadata =
               \<lparr>originalSize = length s, encryptedSize = length (encryptedData er),
                checksum = json_hash (hash_unawaited E L s),
                itemCreatedAt = DateIso now,
                itemExpiresAt = map_option json_date
                  (case expirationTime options of
                     None \<Rightarrow> None
                   | Some ms \<Rightarrow> if ms = 0 then None else Some (new_Date (now + ms))),
                compressed = (compressionEnabled options = Some True),
                itemKeyId = optKeyId options\<rparr>\<rparr>"
proof -
  from st have vk: "validateKey key = Inr ()"
    by (cases "validateKey key") (simp_all add: store_def)
  from st vk have vp: "validatePassword password = Inr ()"
    by (cases "validatePassword password") (simp_all add: store_def)
  have und: "fst (store_undefined E L password options st) \<noteq> Inr ()"
    by (auto simp: store_undefined_def Let_def split: sum.splits engine.splits prod.splits)
  from st vk vp und obtain s where s: "stringify J d = Text s"
    by (cases "stringify J d") (auto simp add: store_def)
  let ?c = "if compressionEnabled options = Some True then compressData L s else Inr s"
  from st vk vp s obtain p where p: "?c = Inr p"
    by (cases ?c) (simp_all add: store_def)
  obtain enc tape' where e: "encryptText L DEFAULT_CONFIG p password (srand st) = (enc, tape')"
    by (cases "encryptText L DEFAULT_CONFIG p password (srand st)") auto
  from st vk vp s p e obtain er where er: "enc = Inr er"
    by (cases enc) (simp_all add: store_def)
  from st vk vp s p e er have
    "items st' (fullKey key) =
       Some \<lparr>itemId = key, itemData = er,
             itemMetadata =
               \<lparr>originalSize = length s, encryptedSize = length (encryptedData er),
                checksum = json_hash (hash_unawaited E L s),
                itemCreatedAt = DateIso now,
                itemExpiresAt = map_option json_date
                  (case expirationTime options of
                     None \<Rightarrow> None
                   | Some ms \<Rightarrow> if ms = 0 then None else Some (new_Date (now + ms))),
                compressed = (compressionEnabled options = Some True),
                itemKeyId = optKeyId options\<rparr>\<rparr>"
    by (auto simp add: store_def Let_def saveToStorage_def json_item_def json_date_def)
  with vk vp s p e er show ?thesis by (auto intro: that)
qed


lemma strict_neq_Digest: "strict_neq (Digest x) (Digest y) = (x \<noteq> y)"
  by (simp add: strict_neq_def)

lemma strict_neq_Promise: "strict_neq (DigestPromise x) h = True"
  by (simp add: strict_neq_def)

text \<open>
  With the engine \<open>Direct\<close> the checksum is a digest on both sides, and what was stored
  comes back: the claim of C2 holds, at every later instant, whatever the options. The
  expiry of a stored item is text, so the test for expiry never succeeds.
\<close>

lemma store_retrieve_direct:
  assumes lib: "aead_ok L"
    and b64: "\<forall>s c. btoa L s = Some c \<longrightarrow> atob L c = Some s"
    and json: "\<forall>s. stringify J d = Text s \<longrightarrow> parse J s = Some d"
    and st: "store Direct L J key d password options now st = (Inr (), st')"
  shows "retrieve Direct L J key password now' st' = (Inr d, st')"
proof -
  from st obtain s p er tape' where
    vk: "validateKey key = Inr ()" and vp: "validatePassword password = Inr ()" and
    s: "stringify J d = Text s" and
    p: "(if compressionEnabled options = Some True then compressData L s else Inr s) = Inr p" and
    e: "encryptText L DEFAULT_CONFIG p password (srand st) = (Inr er, tape')" and
    it: "items st' (fullKey key) =
       Some \<lparr>itemId = key, itemData = er,
             itemMetadata =
               \<lparr>originalSize = length s, encryptedSize = length (encryptedData er),
                checksum = json_hash (hash_unawaited Direct L s),
                itemCreatedAt = DateIso now,
                itemExpiresAt = map_option json_date
                  (case expirationTime options of
                     None \<Rightarrow> None
                   | Some ms \<Rightarrow> if ms = 0 then None else Some (new_Date (now + ms))),
                compressed = (compressionEnabled options = Some True),
                itemKeyId = optKeyId options\<rparr>\<rparr>"
    by (rule store_success)
  from e have ne: "p \<noteq> []" "password \<noteq> []"
    by (auto elim: encryptText_success)
  from decryptText_encryptText [OF lib ne e] have dec: "decryptText L DEFAULT_CONFIG er password = Inr p" .
  have un: "(if compressionEnabled options = Some True then decompressData L p else Inr p) = Inr s"
  proof (cases "compressionEnabled options = Some True")
    case True
    with p have "btoa L s = Some p"
      by (simp add: compressData_def split: option.splits)
    with b64 have "atob L p = Some s" by blast
    with True show ?thesis by (simp add: decompressData_def)
  next
    case False
    with p show ?thesis by simp
  qed
  have sum: "strict_neq (hash_unawaited Direct L s) (json_hash (hash_unawaited Direct L s)) = False"
    by (simp add: hash_unawaited_def unawaited_def json_hash_def strict_neq_def)
  from json s have ps: "parse J s = Some d" by blast
  show ?thesis
    unfolding retrieve_def
    by (simp add: vk vp loadFromStorage_def it dec un sum ps comp_def date_lt_json_date
          split: option.splits)
qed

text \<open>
  With the engine \<open>Bridge\<close>, the one \<^verbatim>\<open>secureStorage.ts\<close> imports, the checksum made at
  retrieval is a promise, which differs from whatever the item holds: \<^verbatim>\<open>retrieve\<close> never
  returns a payload.
\<close>

lemma retrieve_bridge_fails: "fst (retrieve Bridge L J key password now st) \<noteq> Inr d"
  by (auto simp: retrieve_def remove_def hash_unawaited_def unawaited_def strict_neq_def
           split: sum.splits option.splits prod.splits if_splits)

text \<open>
  C2, at a failing input: the scenario of the specification on the engine that
  \<^verbatim>\<open>secureStorage.ts\<close> imports. \<^verbatim>\<open>store\<close> succeeds and writes \<^verbatim>\<open>{}\<close> as checksum;
  \<^verbatim>\<open>retrieve\<close> with the same key and password fails the integrity check.
\<close>

theorem store_retrieve_bridge_run:
  "(case store Bridge ref_runtime number_codec ''backup_2024'' 42 ''password123'' no_options 1000
           empty_storage of
      (r, st') \<Rightarrow>
        r = Inr ()
        \<and> map_option (checksum \<circ> itemMetadata) (items st' (fullKey ''backup_2024'')) = Some EmptyObject
        \<and> fst (retrieve Bridge ref_runtime number_codec ''backup_2024'' ''password123'' 2000 st')
            = Inl IntegrityFailure)"
  by code_simp

text \<open>The same scenario on the engine \<open>Direct\<close>, with compression and an expiry of one
  minute, retrieved a day later.\<close>

lemma store_retrieve_direct_run:
  "(case store Direct ref_runtime number_codec ''backup_2024'' 42 ''password123'' timed_options 1000
           empty_storage of
      (r, st') \<Rightarrow>
        r = Inr ()
        \<and> fst (retrieve Direct ref_runtime number_codec ''backup_2024'' ''password123''
                 (1000 + day_ms) st') = Inr 42
        \<and> fst (retrieve Direct ref_runtime number_codec ''backup_2024'' ''wrongpass''
                 (1000 + day_ms) st') = Inl AuthenticationFailure)"
  by code_simp


section \<open>FileEncryption: batches\<close>

lemma successes_append: "successes (xs @ ys) = successes xs @ successes ys"
  by (simp add: successes_def)

lemma successes_Cons:
  "successes (Inr x # rs) = x # successes rs" "successes (Inl e # rs) = successes rs"
  by (simp_all add: successes_def)

lemma failures_Cons:
  "failures (f # fs) (Inl e # rs) = (fileName f, e) # failures fs rs"
  "failures (f # fs) (Inr x # rs) = failures fs rs"
  by (simp_all add: failures_def)

lemma length_outcomes: "length (outcomes L password files fe) = length files"
  by (induction files arbitrary: fe) (simp_all split: prod.splits)

text \<open>The loop with its two accumulators against the outcomes of the files one by one.\<close>

lemma batch_loop_outcomes:
  "\<exists>fe'. batch_loop L password files results errors fe =
     (results @ successes (outcomes L password files fe),
      errors @ failures files (outcomes L password files fe), fe')"
proof (induction files arbitrary: results errors fe)
  case Nil
  show ?case by (simp add: successes_def failures_def)
next
  case (Cons f fs)
  obtain outcome fe1 where o: "encryptFile L f password fe = (outcome, fe1)"
    by (cases "encryptFile L f password fe") auto
  show ?case
  proof (cases outcome)
    case (Inl e)
    from Cons.IH [of results "errors @ [(fileName f, e)]" fe1] o Inl
    show ?thesis by (auto simp: successes_Cons failures_Cons)
  next
    case (Inr result)
    from Cons.IH [of "results @ [result]" errors fe1] o Inr
    show ?thesis by (auto simp: successes_Cons failures_Cons)
  qed
qed

lemma length_successes_failures:
  "length rs = length files \<Longrightarrow> length (successes rs) + length (failures files rs) = length files"
proof (induction files arbitrary: rs)
  case Nil
  then show ?case by (simp add: successes_def failures_def)
next
  case (Cons f fs)
  then obtain r rs' where rs: "rs = r # rs'" "length rs' = length fs"
    by (cases rs) auto
  with Cons.IH [of rs'] show ?case
    by (cases r) (simp_all add: successes_Cons failures_Cons)
qed

lemma last_logEvent:
  "last (logEvent ev st ds logs) = \<lparr>event = ev, status = st, details = ds\<rparr>"
  by (simp add: logEvent_def Let_def)

text \<open>
  C8, amended. The batch encrypts every file, each in the state the one before left;
  a file that fails does not stop the loop. The value returned is the list of the results
  of the files that succeeded, in order, and nothing else; together with the failures it
  accounts for every file. The errors, each with the name of its file, are not returned:
  they are the details of the entry that the batch writes last to the security log, a
  warning when there is an error and a success otherwise.
\<close>

theorem encryptMultipleFiles_partial:
  "fst (encryptMultipleFiles L files password fe) = successes (outcomes L password files fe)
   \<and> length (outcomes L password files fe) = length files
   \<and> length (fst (encryptMultipleFiles L files password fe))
       + length (failures files (outcomes L password files fe)) = length files
   \<and> last (securityLog (snd (encryptMultipleFiles L files password fe))) =
       (if failures files (outcomes L password files fe) = []
        then \<lparr>event = ''BATCH_FILE_ENCRYPTION'', status = Success,
              details = BatchDone (length files) (length (successes (outcomes L password files fe)))\<rparr>
        else \<lparr>event = ''BATCH_FILE_ENCRYPTION'', status = Warning,
              details = BatchIncomplete (length files)
                (length (successes (outcomes L password files fe)))
                (length (failures files (outcomes L password files fe)))
                (failures files (outcomes L password files fe))\<rparr>)"
proof -
  from batch_loop_outcomes [of L password files "[]" "[]" fe] obtain fe1 where
    b: "batch_loop L password files [] [] fe =
          (successes (outcomes L password files fe), failures files (outcomes L password files fe), fe1)"
    by auto
  have r: "fst (encryptMultipleFiles L files password fe) = successes (outcomes L password files fe)"
    by (simp add: encryptMultipleFiles_def b)
  have l: "last (securityLog (snd (encryptMultipleFiles L files password fe))) =
       (if failures files (outcomes L password files fe) = []
        then \<lparr>event = ''BATCH_FILE_ENCRYPTION'', status = Success,
              details = BatchDone (length files) (length (successes (outcomes L password files fe)))\<rparr>
        else \<lparr>event = ''BATCH_FILE_ENCRYPTION'', status = Warning,
              details = BatchIncomplete (length files)
                (length (successes (outcomes L password files fe)))
                (length (failures files (outcomes L password files fe)))
                (failures files (outcomes L password files fe))\<rparr>)"
    by (simp add: encryptMultipleFiles_def b last_logEvent)
  from r l length_outcomes [of L password files fe]
    length_successes_failures [OF length_outcomes [of L password files fe]]
  show ?thesis by simp
qed

lemma three_files_outcomes:
  "map (originalName \<circ> fileMetadata) (successes (outcomes ref_runtime ''password123'' three_files
       new_FileEncryption)) = [''a.txt'', ''c.txt'']
   \<and> failures three_files (outcomes ref_runtime ''password123'' three_files new_FileEncryption)
       = [(''huge.bin'', FileTooLarge)]"
  by code_simp

theorem encryptMultipleFiles_partial_witness:
  "map (originalName \<circ> fileMetadata)
     (fst (encryptMultipleFiles ref_runtime three_files ''password123'' new_FileEncryption))
     = [''a.txt'', ''c.txt'']
   \<and> details (last (securityLog
        (snd (encryptMultipleFiles ref_runtime three_files ''password123'' new_FileEncryption))))
     = BatchIncomplete 3 2 1 [(''huge.bin'', FileTooLarge)]"
proof -
  note th = encryptMultipleFiles_partial [of ref_runtime three_files "''password123''" new_FileEncryption]
  from th three_files_outcomes
  have a: "map (originalName \<circ> fileMetadata)
     (fst (encryptMultipleFiles ref_runtime three_files ''password123'' new_FileEncryption))
     = [''a.txt'', ''c.txt'']"
    by simp
  from three_files_outcomes have
    n: "length (successes (outcomes ref_runtime ''password123'' three_files new_FileEncryption)) = 2"
    by (metis length_map length_Cons list.size(3) numeral_2_eq_2)
  have k: "length three_files = 3" by (simp add: three_files_def)
  from th three_files_outcomes n k
  have b: "details (last (securityLog
        (snd (encryptMultipleFiles ref_runtime three_files ''password123'' new_FileEncryption))))
     = BatchIncomplete 3 2 1 [(''huge.bin'', FileTooLarge)]"
    by simp
  from a b show ?thesis by simp
qed

text \<open>
  C8 as stated fails: the batch returns the results alone. A batch whose only file is
  refused returns the same value as a batch of no file at all, the empty list; that a file
  failed, and why, is not in what the caller gets.
\<close>

theorem batch_returns_results_only:
  "fst (encryptMultipleFiles ref_runtime [huge_file] ''password123'' new_FileEncryption) = []
   \<and> fst (encryptMultipleFiles ref_runtime [] ''password123'' new_FileEncryption) = []
   \<and> failures [huge_file] (outcomes ref_runtime ''password123'' [huge_file] new_FileEncryption)
       = [(''huge.bin'', FileTooLarge)]"
  by code_simp



end
